theory Spec2Isabelle
  imports Complex_Main "HOL-Library.Sublist"
begin

section \<open>Python strings\<close>

text \<open>
  A Python \<^verbatim>\<open>str\<close> is a sequence of Unicode code points. A code point is a natural
  number here, so that \<^verbatim>\<open>len\<close> counts what Python counts, and a string literal of
  the source is written \<open>lit ''...''\<close>.
\<close>

type_synonym codepoint = nat
type_synonym pystr = "codepoint list"

definition lit :: "string \<Rightarrow> pystr" where
  "lit s = map of_char s"

definition is_ascii :: "pystr \<Rightarrow> bool" where
  "is_ascii s = list_all (\<lambda>c. c < 128) s"

section \<open>JSON values and exceptions\<close>

text \<open>
  What \<^verbatim>\<open>json.loads\<close> and \<^verbatim>\<open>request.json()\<close> return: \<^verbatim>\<open>None\<close>, a bool, an int,
  a float, a str, a list or a dict with string keys. A dict is an association list, the
  first binding of a key being the dict's. A float is a rational or one of
  \<^verbatim>\<open>inf\<close>, \<^verbatim>\<open>-inf\<close>, \<^verbatim>\<open>nan\<close> (all three are one constructor: the handler only
  tests a float for truth).
\<close>

datatype pyfloat = Finite rat | Nonfinite

datatype json =
    JNull
  | JBool bool
  | JInt int
  | JFloat pyfloat
  | JStr pystr
  | JArr "json list"
  | JObj "(pystr \<times> json) list"

text \<open>
  The exceptions the handler can meet. \<open>External n\<close> is an exception raised outside the
  handler's own code (the request body is not JSON, the network fails, an upstream body
  does not parse); \<open>n\<close> only tells such exceptions apart.
\<close>

datatype exn =
  AttributeError | KeyError | TypeError | IndexError | UnicodeEncodeError | External nat

section \<open>The Python runtime\<close>

text \<open>
  The handler calls \<^verbatim>\<open>str.title\<close>, \<^verbatim>\<open>str.upper\<close> and \<^verbatim>\<open>str.split\<close>, formats values
  into f-strings, turns exceptions into text and prints to the console. These rest on
  parts of the Python runtime that are not part of the repository: the Unicode character
  database (full case mappings, the properties Cased, Case_Ignorable and White_Space),
  \<^verbatim>\<open>str()\<close> of a value that is not a string, \<^verbatim>\<open>str()\<close> of an exception, and the
  standard output: \<open>stdout_error text\<close> is the exception that writing \<open>text\<close> raises
  (UnicodeEncodeError when the encoding of the console lacks one of its code points, as
  UTF-8 lacks the lone surrogates), or \<open>None\<close> when the text is written. The model
  takes them as a record, and every function below is defined for any such record.
\<close>

record runtime =
  to_upper_full :: "codepoint \<Rightarrow> pystr"
  to_lower_full :: "codepoint \<Rightarrow> pystr"
  to_title_full :: "codepoint \<Rightarrow> pystr"
  is_cased :: "codepoint \<Rightarrow> bool"
  is_case_ignorable :: "codepoint \<Rightarrow> bool"
  is_space :: "codepoint \<Rightarrow> bool"
  str_of :: "json \<Rightarrow> pystr"
  exn_str :: "exn \<Rightarrow> pystr"
  stdout_error :: "pystr \<Rightarrow> exn option"

subsection \<open>\<^verbatim>\<open>str.upper\<close>\<close>

text \<open>Each code point is replaced by its full upper-case mapping (one to three code points).\<close>

definition py_upper :: "runtime \<Rightarrow> pystr \<Rightarrow> pystr" where
  "py_upper R s = concat (map (to_upper_full R) s)"

subsection \<open>\<^verbatim>\<open>str.title\<close>\<close>

text \<open>
  CPython walks the string once and remembers whether the previous code point was cased:
  after a cased one the code point is lower-cased, otherwise it is title-cased.
  Lower-casing reads the context for U+03A3 only (capital sigma, which becomes the final
  sigma U+03C2 between a cased code point and the end of a word). The walk is a zipper:
  \<open>seen\<close> holds the code points already passed, the nearest first.
\<close>

definition handle_capital_sigma :: "runtime \<Rightarrow> pystr \<Rightarrow> pystr \<Rightarrow> codepoint" where
  "handle_capital_sigma R seen ahead =
     (let final_sigma =
            (case dropWhile (is_case_ignorable R) seen of
               [] \<Rightarrow> False
             | c # _ \<Rightarrow> is_cased R c);
          final_sigma =
            (if final_sigma
             then (case dropWhile (is_case_ignorable R) ahead of
                     [] \<Rightarrow> True
                   | c # _ \<Rightarrow> \<not> is_cased R c)
             else False)
      in if final_sigma then 0x3C2 else 0x3C3)"

definition lower_ucs4 :: "runtime \<Rightarrow> pystr \<Rightarrow> codepoint \<Rightarrow> pystr \<Rightarrow> pystr" where
  "lower_ucs4 R seen c ahead =
     (if c = 0x3A3 then [handle_capital_sigma R seen ahead] else to_lower_full R c)"

fun do_title :: "runtime \<Rightarrow> pystr \<Rightarrow> pystr \<Rightarrow> bool \<Rightarrow> pystr" where
  "do_title R seen [] previous_is_cased = []"
| "do_title R seen (c # ahead) previous_is_cased =
     (if previous_is_cased then lower_ucs4 R seen c ahead else to_title_full R c)
     @ do_title R (c # seen) ahead (is_cased R c)"

definition py_title :: "runtime \<Rightarrow> pystr \<Rightarrow> pystr" where
  "py_title R s = do_title R [] s False"

subsection \<open>\<^verbatim>\<open>str.split\<close> without arguments\<close>

text \<open>
  Runs of white space separate the words; leading and trailing white space gives no
  empty word.
\<close>

function py_split :: "runtime \<Rightarrow> pystr \<Rightarrow> pystr list" where
  "py_split R s =
     (case dropWhile (is_space R) s of
        [] \<Rightarrow> []
      | c # rest \<Rightarrow>
          (c # takeWhile (\<lambda>x. \<not> is_space R x) rest)
          # py_split R (dropWhile (\<lambda>x. \<not> is_space R x) rest))"
  by pat_completeness auto
termination
proof (relation "measure (\<lambda>(R, s). length s)")
  show "wf (measure (\<lambda>(R, s). length s))"
    by simp
next
  fix R :: runtime and s :: pystr and c rest
  assume d: "dropWhile (is_space R) s = c # rest"
  have "length (dropWhile (\<lambda>x. \<not> is_space R x) rest) \<le> length rest"
    by (rule length_dropWhile_le)
  moreover have "length (c # rest) \<le> length s"
    using length_dropWhile_le [of "is_space R" s] d by simp
  ultimately show "((R, dropWhile (\<lambda>x. \<not> is_space R x) rest), (R, s)) \<in> measure (\<lambda>(R, s). length s)"
    by simp
qed

declare py_split.simps [simp del]

subsection \<open>Subscripts, truth, formatting\<close>

text \<open>\<^verbatim>\<open>word[0]\<close> on a string: the first code point as a string, IndexError on the empty string.\<close>

definition str_first :: "pystr \<Rightarrow> exn + pystr" where
  "str_first w = (case w of [] \<Rightarrow> Inl IndexError | c # _ \<Rightarrow> Inr [c])"

text \<open>\<^verbatim>\<open>v[key]\<close> with a string key: only a dict takes one, and the key must be there.\<close>

definition getitem_key :: "json \<Rightarrow> pystr \<Rightarrow> exn + json" where
  "getitem_key v k =
     (case v of
        JObj kvs \<Rightarrow> (case map_of kvs k of None \<Rightarrow> Inl KeyError | Some x \<Rightarrow> Inr x)
      | _ \<Rightarrow> Inl TypeError)"

text \<open>
  \<^verbatim>\<open>v[0]\<close>: the first element of a list, the first code point of a string; a dict made
  from JSON has string keys only, so the key \<^verbatim>\<open>0\<close> is missing.
\<close>

definition getitem_0 :: "json \<Rightarrow> exn + json" where
  "getitem_0 v =
     (case v of
        JArr xs \<Rightarrow> (case xs of [] \<Rightarrow> Inl IndexError | x # _ \<Rightarrow> Inr x)
      | JStr s \<Rightarrow> (case s of [] \<Rightarrow> Inl IndexError | c # _ \<Rightarrow> Inr (JStr [c]))
      | JObj kvs \<Rightarrow> Inl KeyError
      | _ \<Rightarrow> Inl TypeError)"

text \<open>The truth value of a JSON value, as \<^verbatim>\<open>not idea\<close> tests it.\<close>

fun truthy :: "json \<Rightarrow> bool" where
  "truthy JNull = False"
| "truthy (JBool b) = b"
| "truthy (JInt i) = (i \<noteq> 0)"
| "truthy (JFloat (Finite q)) = (q \<noteq> 0)"
| "truthy (JFloat Nonfinite) = True"
| "truthy (JStr s) = (s \<noteq> [])"
| "truthy (JArr xs) = (xs \<noteq> [])"
| "truthy (JObj kvs) = (kvs \<noteq> [])"

text \<open>A value inside an f-string: a string as it is, anything else through \<^verbatim>\<open>str()\<close>.\<close>

definition fmt :: "runtime \<Rightarrow> json \<Rightarrow> pystr" where
  "fmt R v = (case v of JStr s \<Rightarrow> s | _ \<Rightarrow> str_of R v)"

text \<open>
  \<^verbatim>\<open>print\<close> of one line: the text and a line break go to the standard output; the
  result is the exception raised, if any.
\<close>

definition py_print :: "runtime \<Rightarrow> pystr \<Rightarrow> exn option" where
  "py_print R line = stdout_error R (line @ [10])"

text \<open>Lists and dicts are not hashable, so they are no dict keys.\<close>

fun hashable :: "json \<Rightarrow> bool" where
  "hashable (JArr xs) = False"
| "hashable (JObj kvs) = False"
| "hashable v = True"

section \<open>The generation request handler\<close>

subsection \<open>The style table and the prompt\<close>

text \<open>
  \<^verbatim>\<open>ART_STYLE_PROMPTS\<close>. The fragments are triple-quoted: each holds a line break
  followed by eight blanks.
\<close>

definition line_break :: "nat \<Rightarrow> pystr" where
  "line_break indent = 10 # replicate indent 32"

definition ART_STYLE_PROMPTS :: "(pystr \<times> pystr) list" where
  "ART_STYLE_PROMPTS =
     [(lit ''pixel'',
       lit ''16-bit pixel art style, retro gaming aesthetic, clean pixelated edges,''
       @ line_break 8
       @ lit ''reminiscent of classic video games, limited color palette, sharp pixels''),
      (lit ''anime'',
       lit ''anime art style, manga-inspired, cel-shaded, vibrant colors,''
       @ line_break 8
       @ lit ''kawaii aesthetic, clean linework, anime character design''),
      (lit ''3d'',
       lit ''3D rendered style, volumetric lighting, subsurface scattering,''
       @ line_break 8
       @ lit ''realistic textures, ambient occlusion, ray-traced reflections''),
      (lit ''minimalist'',
       lit ''minimalist design, clean lines, simple shapes,''
       @ line_break 8
       @ lit ''limited color palette, negative space, geometric composition''),
      (lit ''cartoon'',
       lit ''cartoon style, bold outlines, vibrant colors,''
       @ line_break 8
       @ lit ''exaggerated features, playful design, smooth shading''),
      (lit ''realistic'',
       lit ''realistic digital painting, detailed textures,''
       @ line_break 8
       @ lit ''professional illustration, photorealistic elements, detailed shading'')]"

text \<open>\<^verbatim>\<open>ART_STYLE_PROMPTS['pixel']\<close>, the default of the lookup.\<close>

definition default_style_prompt :: pystr where
  "default_style_prompt = (case map_of ART_STYLE_PROMPTS (lit ''pixel'') of Some p \<Rightarrow> p | None \<Rightarrow> [])"

text \<open>
  \<^verbatim>\<open>ART_STYLE_PROMPTS.get(art_style, ART_STYLE_PROMPTS['pixel'])\<close>: the key is hashed
  first, so a list or a dict raises TypeError; the keys of the table are strings, and
  no other value equals one.
\<close>

definition style_lookup :: "json \<Rightarrow> exn + pystr" where
  "style_lookup art_style =
     (if \<not> hashable art_style then Inl TypeError
      else case art_style of
             JStr k \<Rightarrow> (case map_of ART_STYLE_PROMPTS k of
                          Some p \<Rightarrow> Inr p
                        | None \<Rightarrow> Inr default_style_prompt)
           | _ \<Rightarrow> Inr default_style_prompt)"

definition base_prompt :: "runtime \<Rightarrow> json \<Rightarrow> pystr \<Rightarrow> pystr" where
  "base_prompt R idea style_prompt =
     lit ''detailed cryptocurrency mascot logo of a '' @ fmt R idea @ lit '',''
     @ line_break 12 @ style_prompt @ lit '',''
     @ line_break 12 @ lit ''centered composition, clean vectorized style,''
     @ line_break 12 @ lit ''suitable for crypto token, professional logo design''"

subsection \<open>Responses, the upstream service, and what the handler does to it\<close>

datatype resp_body =
    Error_body (error: pystr)
  | Generated (imageUrl: json) (name: pystr) (ticker: pystr) (description: pystr)
      (socialLinks: "pystr list") (success: bool)

text \<open>
  What a call of the handler ends in: a JSON response that it returns, or an exception
  that leaves it (the one raised inside the outer \<^verbatim>\<open>except\<close>), which the web
  framework answers in its place.
\<close>

datatype response = Json_response (status: int) (body: resp_body) | Unhandled exn

text \<open>
  The upstream image service is scripted: what the job-creation call gives, and what
  the \<open>i\<close>-th status query gives (counted from 0). A call either raises or answers with
  a status; the answer to the creation call carries its text and what \<^verbatim>\<open>json.loads\<close>
  makes of the text, the answer to a status query what \<^verbatim>\<open>check_response.json()\<close>
  gives when it is asked.
\<close>

datatype create_result =
    Create_raises exn
  | Create_response int pystr "exn + json"

datatype poll_result =
    Poll_raises exn
  | Poll_response int "exn + json"

record upstream =
  create :: create_result
  polls :: "nat \<Rightarrow> poll_result"

text \<open>
  The handler's outbound actions, in order: the job-creation request with its prompt,
  a status query for a generation id, a sleep of so many seconds.
\<close>

datatype event = Create_job pystr | Query_status pystr | Sleep nat

fun is_query :: "event \<Rightarrow> bool" where
  "is_query (Query_status g) = True"
| "is_query e = False"

definition status_queries :: "event list \<Rightarrow> nat" where
  "status_queries tr = length (filter is_query tr)"

subsection \<open>Response assembly\<close>

text \<open>
  \<^verbatim>\<open>''.join(word[0].upper() for word in idea.split()[:3])\<close>: the first exception of
  the generator ends the join.
\<close>

fun initials :: "runtime \<Rightarrow> pystr list \<Rightarrow> exn + pystr" where
  "initials R [] = Inr []"
| "initials R (word # ws) =
     (case str_first word of
        Inl e \<Rightarrow> Inl e
      | Inr c \<Rightarrow> (case initials R ws of
                   Inl e \<Rightarrow> Inl e
                 | Inr t \<Rightarrow> Inr (py_upper R c @ t)))"

definition derive_ticker :: "runtime \<Rightarrow> pystr \<Rightarrow> exn + pystr" where
  "derive_ticker R idea = initials R (take 3 (py_split R idea))"

text \<open>
  The success response. \<^verbatim>\<open>idea.title()\<close> is the first use of \<open>idea\<close> as a string: a
  value of another type has no such attribute.
\<close>

definition assemble :: "runtime \<Rightarrow> json \<Rightarrow> json \<Rightarrow> exn + response" where
  "assemble R idea image_url =
     (case idea of
        JStr s \<Rightarrow>
          (case derive_ticker R s of
             Inl e \<Rightarrow> Inl e
           | Inr t \<Rightarrow>
               Inr (Json_response 200
                 (Generated image_url (py_title R s) t
                    (lit ''Revolutionary '' @ s @ lit '' token powered by advanced AI technology.'')
                    [lit ''Twitter Account'', lit ''Telegram Group'', lit ''Website'']
                    True)))
      | _ \<Rightarrow> Inl AttributeError)"

subsection \<open>Polling\<close>

text \<open>\<^verbatim>\<open>result['generations_by_pk']['status']\<close>\<close>

definition job_status :: "json \<Rightarrow> exn + json" where
  "job_status result =
     (case getitem_key result (lit ''generations_by_pk'') of
        Inl e \<Rightarrow> Inl e
      | Inr g \<Rightarrow> getitem_key g (lit ''status''))"

text \<open>\<^verbatim>\<open>result['generations_by_pk']['generated_images'][0]['url']\<close>\<close>

definition first_image_url :: "json \<Rightarrow> exn + json" where
  "first_image_url result =
     (case getitem_key result (lit ''generations_by_pk'') of
        Inl e \<Rightarrow> Inl e
      | Inr g \<Rightarrow>
          (case getitem_key g (lit ''generated_images'') of
             Inl e \<Rightarrow> Inl e
           | Inr imgs \<Rightarrow>
               (case getitem_0 imgs of
                  Inl e \<Rightarrow> Inl e
                | Inr img \<Rightarrow> getitem_key img (lit ''url''))))"

text \<open>
  The body of the \<^verbatim>\<open>async with\<close> of one attempt, once the query has answered:
  an exception, a response to return, or nothing (the loop goes on).
\<close>

definition attempt :: "runtime \<Rightarrow> json \<Rightarrow> int \<Rightarrow> exn + json \<Rightarrow> exn + response option" where
  "attempt R idea st js =
     (if st = 200
      then (case js of
              Inl e \<Rightarrow> Inl e
            | Inr result \<Rightarrow>
                (case job_status result of
                   Inl e \<Rightarrow> Inl e
                 | Inr s \<Rightarrow>
                     if s = JStr (lit ''COMPLETE'')
                     then (case first_image_url result of
                             Inl e \<Rightarrow> Inl e
                           | Inr image_url \<Rightarrow>
                               (case assemble R idea image_url of
                                  Inl e \<Rightarrow> Inl e
                                | Inr r \<Rightarrow> Inr (Some r)))
                     else Inr None))
      else Inr None)"

text \<open>
  \<^verbatim>\<open>for _ in range(30)\<close> with \<open>n\<close> iterations left, the next being attempt \<open>i\<close>.
  The result is an exception, the response returned from inside the loop, or \<open>None\<close>
  when the loop ran out; beside it the actions taken.
\<close>

fun poll_loop ::
  "runtime \<Rightarrow> (nat \<Rightarrow> poll_result) \<Rightarrow> json \<Rightarrow> pystr \<Rightarrow> nat \<Rightarrow> nat
   \<Rightarrow> (exn + response option) \<times> event list" where
  "poll_loop R ps idea generation_id 0 i = (Inr None, [])"
| "poll_loop R ps idea generation_id (Suc n) i =
     (case ps i of
        Poll_raises e \<Rightarrow> (Inl e, [Query_status generation_id])
      | Poll_response st js \<Rightarrow>
          (case attempt R idea st js of
             Inl e \<Rightarrow> (Inl e, [Query_status generation_id])
           | Inr (Some r) \<Rightarrow> (Inr (Some r), [Query_status generation_id])
           | Inr None \<Rightarrow>
               (case poll_loop R ps idea generation_id n (Suc i) of
                  (out, tr) \<Rightarrow> (out, Query_status generation_id # Sleep 1 # tr))))"

subsection \<open>The handler of \<^verbatim>\<open>POST /api/generate\<close>\<close>

text \<open>The lines the handler prints, in the order of the source.\<close>

definition received_line :: "runtime \<Rightarrow> json \<Rightarrow> pystr" where
  "received_line R data = lit ''Received data: '' @ fmt R data"

definition processing_line :: "runtime \<Rightarrow> json \<Rightarrow> json \<Rightarrow> pystr" where
  "processing_line R idea art_style =
     lit ''Processing request - idea: '' @ fmt R idea @ lit '', style: '' @ fmt R art_style"

definition making_request_line :: pystr where
  "making_request_line = lit ''Making request to Leonardo API...''"

definition status_line :: "runtime \<Rightarrow> int \<Rightarrow> pystr" where
  "status_line R st = lit ''Response status: '' @ str_of R (JInt st)"

definition text_line :: "pystr \<Rightarrow> pystr" where
  "text_line response_text = lit ''Response text: '' @ response_text"

definition api_error_line :: "runtime \<Rightarrow> exn \<Rightarrow> pystr" where
  "api_error_line R e = lit ''API request error: '' @ exn_str R e"

definition detailed_error_line :: "runtime \<Rightarrow> exn \<Rightarrow> pystr" where
  "detailed_error_line R e = lit ''Detailed error: '' @ exn_str R e"

text \<open>The response of the inner \<^verbatim>\<open>except\<close>.\<close>

definition api_request_failed :: "runtime \<Rightarrow> exn \<Rightarrow> response" where
  "api_request_failed R e =
     Json_response 500 (Error_body (lit ''API request failed: '' @ exn_str R e))"

text \<open>
  The inner \<^verbatim>\<open>except\<close>: it prints first, and an exception of that print goes on to
  the outer \<^verbatim>\<open>except\<close>.
\<close>

definition inner_except :: "runtime \<Rightarrow> exn \<Rightarrow> exn + response" where
  "inner_except R e =
     (case py_print R (api_error_line R e) of
        Some e' \<Rightarrow> Inl e'
      | None \<Rightarrow> Inr (api_request_failed R e))"

text \<open>
  The outer \<^verbatim>\<open>except\<close>: it prints first, and an exception of that print leaves the
  handler.
\<close>

definition outer_except :: "runtime \<Rightarrow> exn \<Rightarrow> response" where
  "outer_except R e =
     (case py_print R (detailed_error_line R e) of
        Some e' \<Rightarrow> Unhandled e'
      | None \<Rightarrow> Json_response 500 (Error_body (exn_str R e)))"

text \<open>\<^verbatim>\<open>generation_data['sdGenerationJob']['generationId']\<close>\<close>

definition generation_id_of :: "json \<Rightarrow> exn + json" where
  "generation_id_of generation_data =
     (case getitem_key generation_data (lit ''sdGenerationJob'') of
        Inl e \<Rightarrow> Inl e
      | Inr j \<Rightarrow> getitem_key j (lit ''generationId''))"

text \<open>
  The body of the inner \<^verbatim>\<open>try\<close>: job creation, then polling. The result is the
  exception raised in it or the response returned from it.
\<close>

definition inner_try ::
  "runtime \<Rightarrow> upstream \<Rightarrow> json \<Rightarrow> pystr \<Rightarrow> (exn + response) \<times> event list" where
  "inner_try R up idea prompt =
     (case py_print R making_request_line of
        Some e \<Rightarrow> (Inl e, [])
      | None \<Rightarrow>
          (case create up of
             Create_raises e \<Rightarrow> (Inl e, [Create_job prompt])
           | Create_response st response_text parsed \<Rightarrow>
               (case py_print R (status_line R st) of
                  Some e \<Rightarrow> (Inl e, [Create_job prompt])
                | None \<Rightarrow>
                    (case py_print R (text_line response_text) of
                       Some e \<Rightarrow> (Inl e, [Create_job prompt])
                     | None \<Rightarrow>
                         if st \<noteq> 200
                         then (Inr (Json_response st
                                 (Error_body (lit ''Failed to generate image: '' @ response_text))),
                               [Create_job prompt])
                         else (case parsed of
                                 Inl e \<Rightarrow> (Inl e, [Create_job prompt])
                               | Inr generation_data \<Rightarrow>
                                   (case generation_id_of generation_data of
                                      Inl e \<Rightarrow> (Inl e, [Create_job prompt])
                                    | Inr generation_id \<Rightarrow>
                                        (case poll_loop R (polls up) idea (fmt R generation_id) 30 0 of
                                           (Inl e, tr) \<Rightarrow> (Inl e, Create_job prompt # tr)
                                         | (Inr (Some r), tr) \<Rightarrow> (Inr r, Create_job prompt # tr)
                                         | (Inr None, tr) \<Rightarrow>
                                             (Inr (Json_response 500
                                                (Error_body (lit ''Timeout waiting for image''))),
                                              Create_job prompt # tr))))))))"

text \<open>The inner \<^verbatim>\<open>try\<close> with its \<^verbatim>\<open>except\<close>.\<close>

definition submit ::
  "runtime \<Rightarrow> upstream \<Rightarrow> json \<Rightarrow> pystr \<Rightarrow> (exn + response) \<times> event list" where
  "submit R up idea prompt =
     (case inner_try R up idea prompt of
        (Inl e, tr) \<Rightarrow> (inner_except R e, tr)
      | (Inr r, tr) \<Rightarrow> (Inr r, tr))"

text \<open>
  \<^verbatim>\<open>data.get(key)\<close> and \<^verbatim>\<open>data.get(key, default)\<close>: only a dict has \<^verbatim>\<open>get\<close>.
\<close>

definition dict_get :: "json \<Rightarrow> pystr \<Rightarrow> json \<Rightarrow> exn + json" where
  "dict_get data k dflt =
     (case data of
        JObj kvs \<Rightarrow> (case map_of kvs k of None \<Rightarrow> Inr dflt | Some v \<Rightarrow> Inr v)
      | _ \<Rightarrow> Inl AttributeError)"

text \<open>
  The body of the outer \<^verbatim>\<open>try\<close>. Its argument is what \<^verbatim>\<open>await request.json()\<close>
  gives: an exception or the parsed body.
\<close>

definition outer_try ::
  "runtime \<Rightarrow> upstream \<Rightarrow> exn + json \<Rightarrow> (exn + response) \<times> event list" where
  "outer_try R up request_json =
     (case request_json of
        Inl e \<Rightarrow> (Inl e, [])
      | Inr data \<Rightarrow>
          (case py_print R (received_line R data) of
             Some e \<Rightarrow> (Inl e, [])
           | None \<Rightarrow>
               (case dict_get data (lit ''idea'') JNull of
                  Inl e \<Rightarrow> (Inl e, [])
                | Inr idea \<Rightarrow>
                    (case dict_get data (lit ''artStyle'') (JStr (lit ''pixel'')) of
                       Inl e \<Rightarrow> (Inl e, [])
                     | Inr art_style \<Rightarrow>
                         (case py_print R (processing_line R idea art_style) of
                            Some e \<Rightarrow> (Inl e, [])
                          | None \<Rightarrow>
                              if \<not> truthy idea
                              then (Inr (Json_response 400 (Error_body (lit ''No idea provided''))),
                                    [])
                              else (case style_lookup art_style of
                                      Inl e \<Rightarrow> (Inl e, [])
                                    | Inr style_prompt \<Rightarrow>
                                        submit R up idea (base_prompt R idea style_prompt)))))))"

text \<open>The whole handler: the outer \<^verbatim>\<open>try\<close> with its \<^verbatim>\<open>except\<close>.\<close>

definition generate :: "runtime \<Rightarrow> upstream \<Rightarrow> exn + json \<Rightarrow> response \<times> event list" where
  "generate R up request_json =
     (case outer_try R up request_json of
        (Inl e, tr) \<Rightarrow> (outer_except R e, tr)
      | (Inr r, tr) \<Rightarrow> (r, tr))"

section \<open>Vocabulary of the properties\<close>

subsection \<open>ASCII\<close>

definition ascii_upper :: "codepoint \<Rightarrow> codepoint" where
  "ascii_upper c = (if 97 \<le> c \<and> c \<le> 122 then c - 32 else c)"

definition ascii_lower :: "codepoint \<Rightarrow> codepoint" where
  "ascii_lower c = (if 65 \<le> c \<and> c \<le> 90 then c + 32 else c)"

definition uppercase_letter :: "codepoint \<Rightarrow> bool" where
  "uppercase_letter c = (65 \<le> c \<and> c \<le> 90)"

definition ascii_letter :: "codepoint \<Rightarrow> bool" where
  "ascii_letter c = (65 \<le> c \<and> c \<le> 90 \<or> 97 \<le> c \<and> c \<le> 122)"

text \<open>White space of \<^verbatim>\<open>str\<close> below 128: TAB to CR, FS to US, and the blank.\<close>

definition ascii_space :: "codepoint \<Rightarrow> bool" where
  "ascii_space c = (9 \<le> c \<and> c \<le> 13 \<or> 28 \<le> c \<and> c \<le> 32)"

text \<open>
  A runtime whose tables are Python's on ASCII: one code point maps to one code point,
  the cased code points are the letters.
\<close>

definition ascii_tables :: "runtime \<Rightarrow> bool" where
  "ascii_tables R =
     list_all (\<lambda>c. to_upper_full R c = [ascii_upper c]
                 \<and> to_lower_full R c = [ascii_lower c]
                 \<and> to_title_full R c = [ascii_upper c]
                 \<and> is_cased R c = ascii_letter c
                 \<and> is_space R c = ascii_space c) [0..<128]"

text \<open>What \<^verbatim>\<open>str.title\<close> computes on a string of ASCII code points.\<close>

fun title_ascii :: "pystr \<Rightarrow> bool \<Rightarrow> pystr" where
  "title_ascii [] previous_is_cased = []"
| "title_ascii (c # s) previous_is_cased =
     (if previous_is_cased then ascii_lower c else ascii_upper c) # title_ascii s (ascii_letter c)"

text \<open>
  A concrete runtime, for evaluating examples. Its character tables are CPython 3's on
  ASCII and on three more code points: U+00DF (sharp s: upper case \<^verbatim>\<open>SS\<close>, title case
  \<^verbatim>\<open>Ss\<close>), U+01F0 (j with caron: upper and title case \<^verbatim>\<open>J\<close> followed by U+030C) and
  U+030C (combining caron: uncased, case-ignorable). Its standard output is UTF-8:
  writing raises UnicodeEncodeError exactly on a text that holds a surrogate (U+D800 to
  U+DFFF). On every other code point of the tables, and in the two \<^verbatim>\<open>str()\<close>
  functions, it holds placeholders (no mapping, the name of the exception class, the
  empty string); no theorem about all strings rests on them. The placeholders hold no
  surrogate, and neither do CPython's texts: \<^verbatim>\<open>str()\<close> of a number, of \<^verbatim>\<open>None\<close>
  or of a truth value is ASCII, and \<^verbatim>\<open>str()\<close> of a list or dict escapes the surrogates
  of the strings in it.
\<close>

definition cpython :: runtime where
  "cpython =
     \<lparr> to_upper_full =
         (\<lambda>c. if c = 0xDF then [0x53, 0x53]
              else if c = 0x1F0 then [0x4A, 0x30C]
              else [ascii_upper c]),
       to_lower_full = (\<lambda>c. [ascii_lower c]),
       to_title_full =
         (\<lambda>c. if c = 0xDF then [0x53, 0x73]
              else if c = 0x1F0 then [0x4A, 0x30C]
              else [ascii_upper c]),
       is_cased = (\<lambda>c. ascii_letter c \<or> c = 0xDF \<or> c = 0x1F0),
       is_case_ignorable = (\<lambda>c. c \<in> {0x27, 0x2E, 0x3A, 0x5E, 0x60, 0x30C}),
       is_space = ascii_space,
       str_of = (\<lambda>v. []),
       exn_str =
         (\<lambda>e. case e of
                AttributeError \<Rightarrow> lit ''AttributeError''
              | KeyError \<Rightarrow> lit ''KeyError''
              | TypeError \<Rightarrow> lit ''TypeError''
              | IndexError \<Rightarrow> lit ''IndexError''
              | UnicodeEncodeError \<Rightarrow> lit ''UnicodeEncodeError''
              | External n \<Rightarrow> lit ''Exception''),
       stdout_error =
         (\<lambda>text. if list_ex (\<lambda>c. 0xD800 \<le> c \<and> c \<le> 0xDFFF) text
                  then Some UnicodeEncodeError else None) \<rparr>"

subsection \<open>Requests and upstream scripts\<close>

text \<open>The two fields the handler reads from a JSON object, with the defaults of \<^verbatim>\<open>get\<close>.\<close>

definition request_idea :: "(pystr \<times> json) list \<Rightarrow> json" where
  "request_idea kvs = (case map_of kvs (lit ''idea'') of None \<Rightarrow> JNull | Some v \<Rightarrow> v)"

definition request_style :: "(pystr \<times> json) list \<Rightarrow> json" where
  "request_style kvs =
     (case map_of kvs (lit ''artStyle'') of None \<Rightarrow> JStr (lit ''pixel'') | Some v \<Rightarrow> v)"

text \<open>The console takes each of these lines: no \<^verbatim>\<open>print\<close> of them raises.\<close>

definition logged :: "runtime \<Rightarrow> pystr list \<Rightarrow> bool" where
  "logged R lines = list_all (\<lambda>line. py_print R line = None) lines"

text \<open>
  A status query that finishes without reporting completion: any status other than 200,
  or 200 with a body whose \<^verbatim>\<open>generations_by_pk.status\<close> can be read and is not
  \<^verbatim>\<open>COMPLETE\<close>.
\<close>

fun pending :: "poll_result \<Rightarrow> bool" where
  "pending (Poll_raises e) = False"
| "pending (Poll_response st js) =
     (if st = 200
      then (case js of
              Inl e \<Rightarrow> False
            | Inr result \<Rightarrow>
                (case job_status result of
                   Inl e \<Rightarrow> False
                 | Inr s \<Rightarrow> s \<noteq> JStr (lit ''COMPLETE'')))
      else True)"

text \<open>A status query that answers 200 with state \<^verbatim>\<open>COMPLETE\<close>, and its body.\<close>

fun completed :: "poll_result \<Rightarrow> json option" where
  "completed (Poll_raises e) = None"
| "completed (Poll_response st js) =
     (if st = 200
      then (case js of
              Inl e \<Rightarrow> None
            | Inr result \<Rightarrow>
                if job_status result = Inr (JStr (lit ''COMPLETE'')) then Some result else None)
      else None)"

text \<open>The prompt of the job-creation request, when the handler sent one.\<close>

fun sent_prompt :: "event list \<Rightarrow> pystr option" where
  "sent_prompt (Create_job p # tr) = Some p"
| "sent_prompt tr = None"

text \<open>
  The acronym of the specification: the upper-cased first code points of up to the
  first three white-space separated words.
\<close>

definition acronym :: "runtime \<Rightarrow> pystr \<Rightarrow> pystr" where
  "acronym R idea = concat (map (\<lambda>w. py_upper R (take 1 w)) (take 3 (py_split R idea)))"

text \<open>
  Upstream answers for the examples: the text of a job-creation answer and what
  \<^verbatim>\<open>json.loads\<close> makes of it, the body of a status answer for a pending and for a
  completed job.
\<close>

definition quoted :: "pystr \<Rightarrow> pystr" where
  "quoted s = 34 # s @ [34]"

definition job_created_text :: pystr where
  "job_created_text =
     lit ''{'' @ quoted (lit ''sdGenerationJob'') @ lit '': {''
     @ quoted (lit ''generationId'') @ lit '': '' @ quoted (lit ''job-1'') @ lit ''}}''"

definition job_created :: json where
  "job_created =
     JObj [(lit ''sdGenerationJob'', JObj [(lit ''generationId'', JStr (lit ''job-1''))])]"

definition job_pending :: json where
  "job_pending = JObj [(lit ''generations_by_pk'', JObj [(lit ''status'', JStr (lit ''PENDING''))])]"

definition job_complete :: json where
  "job_complete =
     JObj [(lit ''generations_by_pk'',
            JObj [(lit ''status'', JStr (lit ''COMPLETE'')),
                  (lit ''generated_images'',
                   JArr [JObj [(lit ''url'', JStr (lit ''https://cdn.example/1.png''))],
                         JObj [(lit ''url'', JStr (lit ''https://cdn.example/2.png''))]])])]"

text \<open>The \<open>i\<close>-th query is answered by the \<open>i\<close>-th entry; past the script the job is pending.\<close>

definition script :: "poll_result list \<Rightarrow> nat \<Rightarrow> poll_result" where
  "script rs i = (if i < length rs then rs ! i else Poll_response 200 (Inr job_pending))"

definition mock_upstream :: "poll_result list \<Rightarrow> upstream" where
  "mock_upstream rs =
     \<lparr> create = Create_response 200 job_created_text (Inr job_created), polls = script rs \<rparr>"

section \<open>Properties\<close>

subsection \<open>Words and initials\<close>

text \<open>A word of \<^verbatim>\<open>split\<close> is never empty and holds no white space, so \<^verbatim>\<open>word[0]\<close> never raises.\<close>

lemma py_split_words:
  "w \<in> set (py_split R s) \<Longrightarrow> w \<noteq> [] \<and> list_all (\<lambda>c. \<not> is_space R c) w"
proof (induction R s rule: py_split.induct)
  case (1 R s)
  show ?case
  proof (cases "dropWhile (is_space R) s")
    case Nil
    with "1.prems" show ?thesis
      by (simp add: py_split.simps [of R s])
  next
    case (Cons c rest)
    from Cons have c: "\<not> is_space R c"
      using hd_dropWhile [of "is_space R" s] by auto
    from "1.prems" Cons
    consider "w = c # takeWhile (\<lambda>x. \<not> is_space R x) rest"
      | "w \<in> set (py_split R (dropWhile (\<lambda>x. \<not> is_space R x) rest))"
      by (auto simp: py_split.simps [of R s])
    then show ?thesis
    proof cases
      case 1
      then show ?thesis
        using c by (auto simp: list_all_iff dest: set_takeWhileD)
    next
      case 2
      then show ?thesis
        using "1.IH" [OF Cons] by simp
    qed
  qed
qed

lemma initials_nonempty:
  "list_all (\<lambda>w. w \<noteq> []) ws \<Longrightarrow>
   initials R ws = Inr (concat (map (\<lambda>w. py_upper R (take 1 w)) ws))"
  by (induction ws) (auto simp: str_first_def split: list.splits)

lemma derive_ticker_acronym: "derive_ticker R idea = Inr (acronym R idea)"
proof -
  have "list_all (\<lambda>w. w \<noteq> []) (take 3 (py_split R idea))"
    using py_split_words [of _ R idea] by (auto simp: list_all_iff dest: in_set_takeD)
  then show ?thesis
    by (simp add: derive_ticker_def acronym_def initials_nonempty)
qed

subsection \<open>The poll loop\<close>

lemma attempt_pending: "pending (Poll_response st js) \<Longrightarrow> attempt R idea st js = Inr None"
  by (auto simp: attempt_def split: sum.splits if_splits)

lemma attempt_continues_iff:
  "attempt R idea st js = Inr None \<longleftrightarrow> pending (Poll_response st js)"
  by (auto simp: attempt_def split: sum.splits if_splits)

lemma attempt_completed:
  "completed (Poll_response st js) = Some result \<Longrightarrow>
   attempt R idea st js =
     (case first_image_url result of
        Inl e \<Rightarrow> Inl e
      | Inr image_url \<Rightarrow>
          (case assemble R idea image_url of Inl e \<Rightarrow> Inl e | Inr r \<Rightarrow> Inr (Some r)))"
  by (auto simp: attempt_def split: sum.splits if_splits)

lemma poll_loop_pending:
  "(\<And>j. j < n \<Longrightarrow> pending (ps (i + j))) \<Longrightarrow>
   poll_loop R ps idea g n i = (Inr None, concat (replicate n [Query_status g, Sleep 1]))"
proof (induction n arbitrary: i)
  case 0
  show ?case by simp
next
  case (Suc n)
  have p0: "pending (ps i)"
    using Suc.prems [of 0] by simp
  have rest: "poll_loop R ps idea g n (Suc i) = (Inr None, concat (replicate n [Query_status g, Sleep 1]))"
  proof (rule Suc.IH)
    fix j assume "j < n"
    then show "pending (ps (Suc i + j))"
      using Suc.prems [of "Suc j"] by simp
  qed
  from p0 obtain st js where ps: "ps i = Poll_response st js"
    by (cases "ps i") auto
  with p0 have "attempt R idea st js = Inr None"
    by (simp add: attempt_pending)
  with ps rest show ?case
    by simp
qed

lemma poll_loop_completed:
  assumes "k < n"
    and "\<And>j. j < k \<Longrightarrow> pending (ps (i + j))"
    and "completed (ps (i + k)) = Some result"
  shows "poll_loop R ps idea g n i =
     (case first_image_url result of
        Inl e \<Rightarrow> Inl e
      | Inr image_url \<Rightarrow>
          (case assemble R idea image_url of Inl e \<Rightarrow> Inl e | Inr r \<Rightarrow> Inr (Some r)),
      concat (replicate k [Query_status g, Sleep 1]) @ [Query_status g])"
  using assms
proof (induction k arbitrary: n i)
  case 0
  then obtain m where n: "n = Suc m"
    by (cases n) auto
  from 0 obtain st js where ps: "ps i = Poll_response st js"
    by (cases "ps i") auto
  with 0 have "completed (Poll_response st js) = Some result"
    by simp
  from attempt_completed [OF this, of R idea] ps n show ?case
    by (auto split: sum.splits option.splits simp: assemble_def)
next
  case (Suc k)
  then obtain m where n: "n = Suc m" and km: "k < m"
    by (cases n) auto
  have p0: "pending (ps i)"
    using Suc.prems(2) [of 0] by simp
  then obtain st js where ps: "ps i = Poll_response st js"
    by (cases "ps i") auto
  with p0 have a: "attempt R idea st js = Inr None"
    by (simp add: attempt_pending)
  have "poll_loop R ps idea g m (Suc i) =
     (case first_image_url result of
        Inl e \<Rightarrow> Inl e
      | Inr image_url \<Rightarrow>
          (case assemble R idea image_url of Inl e \<Rightarrow> Inl e | Inr r \<Rightarrow> Inr (Some r)),
      concat (replicate k [Query_status g, Sleep 1]) @ [Query_status g])"
  proof (rule Suc.IH [OF km])
    fix j assume "j < k"
    then show "pending (ps (Suc i + j))"
      using Suc.prems(2) [of "Suc j"] by simp
  next
    show "completed (ps (Suc i + k)) = Some result"
      using Suc.prems(3) by simp
  qed
  with ps a n show ?case
    by simp
qed

lemma status_queries_rounds:
  "status_queries (concat (replicate n [Query_status g, Sleep 1]) @ tr) = n + status_queries tr"
  by (induction n) (simp_all add: status_queries_def)

subsection \<open>The handler on a JSON object\<close>

lemma dict_get_obj:
  "dict_get (JObj kvs) k d = Inr (case map_of kvs k of None \<Rightarrow> d | Some v \<Rightarrow> v)"
  by (simp add: dict_get_def split: option.splits)

lemma generate_object:
  "generate R up (Inr (JObj kvs)) =
     (case py_print R (received_line R (JObj kvs)) of
        Some e \<Rightarrow> (outer_except R e, [])
      | None \<Rightarrow>
          (case py_print R (processing_line R (request_idea kvs) (request_style kvs)) of
             Some e \<Rightarrow> (outer_except R e, [])
           | None \<Rightarrow>
               if \<not> truthy (request_idea kvs)
               then (Json_response 400 (Error_body (lit ''No idea provided'')), [])
               else (case style_lookup (request_style kvs) of
                       Inl e \<Rightarrow> (outer_except R e, [])
                     | Inr style_prompt \<Rightarrow>
                         (case submit R up (request_idea kvs)
                                 (base_prompt R (request_idea kvs) style_prompt) of
                            (Inl e, tr) \<Rightarrow> (outer_except R e, tr)
                          | (Inr r, tr) \<Rightarrow> (r, tr)))))"
  unfolding generate_def outer_try_def request_idea_def request_style_def
  by (simp add: dict_get_obj split: option.splits sum.splits)

lemma logged_simps:
  "logged R [] = True"
  "logged R (line # lines) = (py_print R line = None \<and> logged R lines)"
  by (simp_all add: logged_def)

lemma generate_validated:
  assumes "logged R [received_line R (JObj kvs),
                     processing_line R (request_idea kvs) (request_style kvs)]"
    and "truthy (request_idea kvs)"
    and "style_lookup (request_style kvs) = Inr style_prompt"
  shows "generate R up (Inr (JObj kvs)) =
     (case submit R up (request_idea kvs) (base_prompt R (request_idea kvs) style_prompt) of
        (Inl e, tr) \<Rightarrow> (outer_except R e, tr)
      | (Inr r, tr) \<Rightarrow> (r, tr))"
  using assms by (simp add: generate_object logged_simps)

lemma submit_refused:
  assumes "logged R [making_request_line, status_line R st, text_line response_text]"
    and "create up = Create_response st response_text parsed"
    and "st \<noteq> 200"
  shows "submit R up idea p =
     (Inr (Json_response st (Error_body (lit ''Failed to generate image: '' @ response_text))),
      [Create_job p])"
  using assms by (simp add: submit_def inner_try_def logged_simps)

lemma submit_polling:
  assumes "logged R [making_request_line, status_line R 200, text_line response_text]"
    and "create up = Create_response 200 response_text (Inr generation_data)"
    and "generation_id_of generation_data = Inr generation_id"
  shows "submit R up idea p =
     (case poll_loop R (polls up) idea (fmt R generation_id) 30 0 of
        (Inl e, tr) \<Rightarrow> (inner_except R e, Create_job p # tr)
      | (Inr (Some r), tr) \<Rightarrow> (Inr r, Create_job p # tr)
      | (Inr None, tr) \<Rightarrow>
          (Inr (Json_response 500 (Error_body (lit ''Timeout waiting for image''))),
           Create_job p # tr))"
  using assms
  by (simp add: submit_def inner_try_def logged_simps split: prod.splits sum.splits option.splits)

lemma default_style_prompt_eq:
  "default_style_prompt =
     lit ''16-bit pixel art style, retro gaming aesthetic, clean pixelated edges,''
     @ line_break 8
     @ lit ''reminiscent of classic video games, limited color palette, sharp pixels''"
  by (simp add: default_style_prompt_def ART_STYLE_PROMPTS_def lit_def)

lemma mock_pending: "pending (polls (mock_upstream []) i)"
  by (simp add: mock_upstream_def script_def job_pending_def job_status_def getitem_key_def lit_def)

subsection \<open>Who gets a success response\<close>

lemma assemble_str:
  "assemble R (JStr s) image_url =
     Inr (Json_response 200
       (Generated image_url (py_title R s) (acronym R s)
          (lit ''Revolutionary '' @ s @ lit '' token powered by advanced AI technology.'')
          [lit ''Twitter Account'', lit ''Telegram Group'', lit ''Website'']
          True))"
  by (simp add: assemble_def derive_ticker_acronym)

lemma assemble_returns:
  assumes "assemble R idea image_url = Inr r"
  shows "\<exists>s. idea = JStr s \<and> r = Json_response 200
       (Generated image_url (py_title R s) (acronym R s)
          (lit ''Revolutionary '' @ s @ lit '' token powered by advanced AI technology.'')
          [lit ''Twitter Account'', lit ''Telegram Group'', lit ''Website'']
          True)"
proof (cases idea)
  case (JStr s)
  with assms show ?thesis
    by (simp add: assemble_str)
qed (use assms in \<open>simp_all add: assemble_def\<close>)

lemma attempt_returns:
  assumes "attempt R idea st js = Inr (Some r)"
  shows "\<exists>image_url. assemble R idea image_url = Inr r"
  using assms by (auto simp: attempt_def split: if_splits sum.splits)

lemma poll_loop_returns:
  "poll_loop R ps idea g n i = (Inr (Some r), tr) \<Longrightarrow> \<exists>image_url. assemble R idea image_url = Inr r"
proof (induction n arbitrary: i tr)
  case 0
  then show ?case by simp
next
  case (Suc n)
  show ?case
  proof (cases "ps i")
    case (Poll_raises e)
    with Suc.prems show ?thesis by simp
  next
    case (Poll_response st js)
    show ?thesis
    proof (cases "attempt R idea st js")
      case (Inl e)
      with Suc.prems Poll_response show ?thesis by simp
    next
      case (Inr res)
      show ?thesis
      proof (cases res)
        case None
        with Suc.prems Poll_response Inr
        obtain tr' where "poll_loop R ps idea g n (Suc i) = (Inr (Some r), tr')"
          by (auto split: prod.splits)
        then show ?thesis by (rule Suc.IH)
      next
        case (Some r')
        with Suc.prems Poll_response Inr have "r' = r" by simp
        with Some Inr show ?thesis
          using attempt_returns by blast
      qed
    qed
  qed
qed

text \<open>
  What the inner \<^verbatim>\<open>try\<close> returns: the refusal of the job, the response of the poll
  loop, or the timeout.
\<close>

lemma inner_try_returns:
  assumes "inner_try R up idea p = (Inr r, tr)"
  shows "(\<exists>st response_text. st \<noteq> 200
            \<and> r = Json_response st (Error_body (lit ''Failed to generate image: '' @ response_text)))
         \<or> (\<exists>image_url. assemble R idea image_url = Inr r)
         \<or> r = Json_response 500 (Error_body (lit ''Timeout waiting for image''))"
proof (cases "create up")
  case (Create_raises e)
  with assms show ?thesis
    by (simp add: inner_try_def split: option.splits)
next
  case (Create_response cst response_text parsed)
  show ?thesis
  proof (cases "cst = 200")
    case False
    with assms Create_response show ?thesis
      by (auto simp: inner_try_def split: option.splits)
  next
    case True
    show ?thesis
    proof (cases parsed)
      case (Inl e)
      with assms Create_response True show ?thesis
        by (simp add: inner_try_def split: option.splits)
    next
      case (Inr gd)
      show ?thesis
      proof (cases "generation_id_of gd")
        case (Inl e)
        with assms Create_response True \<open>parsed = Inr gd\<close> show ?thesis
          by (simp add: inner_try_def split: option.splits)
      next
        case gid: (Inr generation_id)
        obtain out tr' where pl: "poll_loop R (polls up) idea (fmt R generation_id) 30 0 = (out, tr')"
          by (cases "poll_loop R (polls up) idea (fmt R generation_id) 30 0")
        with assms Create_response True Inr gid
        have "out = Inr (Some r) \<or> (out = Inr None
                \<and> r = Json_response 500 (Error_body (lit ''Timeout waiting for image'')))"
          by (auto simp: inner_try_def split: sum.splits option.splits)
        with pl show ?thesis
          using poll_loop_returns by blast
      qed
    qed
  qed
qed

lemma submit_returns:
  assumes "submit R up idea p = (Inr r, tr)"
  shows "(\<exists>st response_text. st \<noteq> 200
            \<and> r = Json_response st (Error_body (lit ''Failed to generate image: '' @ response_text)))
         \<or> (\<exists>image_url. assemble R idea image_url = Inr r)
         \<or> r = Json_response 500 (Error_body (lit ''Timeout waiting for image''))
         \<or> (\<exists>e. r = api_request_failed R e)"
proof -
  obtain out tr' where it: "inner_try R up idea p = (out, tr')"
    by (cases "inner_try R up idea p")
  show ?thesis
  proof (cases out)
    case (Inl e)
    with assms it have "inner_except R e = Inr r"
      by (simp add: submit_def)
    then have "r = api_request_failed R e"
      by (simp add: inner_except_def split: option.splits)
    then show ?thesis
      by blast
  next
    case (Inr r')
    with assms it have "r' = r"
      by (simp add: submit_def)
    with it Inr show ?thesis
      using inner_try_returns by blast
  qed
qed

lemma outer_except_cases:
  "outer_except R e = Json_response 500 (Error_body (exn_str R e))
   \<or> (\<exists>e'. outer_except R e = Unhandled e')"
  by (simp add: outer_except_def split: option.splits)

lemma generate_success:
  assumes "generate R up req = (Json_response st (Generated u n t d l sc), tr)"
  shows "\<exists>kvs idea. req = Inr (JObj kvs) \<and> request_idea kvs = JStr idea \<and> idea \<noteq> []
           \<and> st = 200 \<and> n = py_title R idea \<and> t = acronym R idea"
proof -
  have no_except: "outer_except R e \<noteq> Json_response st (Generated u n t d l sc)" for e
    using outer_except_cases [of R e] by auto
  from assms obtain data where req: "req = Inr data"
    using no_except by (cases req) (auto simp: generate_def outer_try_def)
  with assms obtain kvs where data: "data = JObj kvs"
    using no_except
    by (cases data) (auto simp: generate_def outer_try_def dict_get_def split: option.splits)
  from assms req data have tr: "truthy (request_idea kvs)"
    using no_except by (auto simp: generate_object split: if_splits option.splits)
  with assms req data obtain sp where
    "submit R up (request_idea kvs) (base_prompt R (request_idea kvs) sp)
       = (Inr (Json_response st (Generated u n t d l sc)), tr)"
    using no_except by (auto simp: generate_object split: sum.splits option.splits prod.splits)
  from submit_returns [OF this] obtain image_url where
    "assemble R (request_idea kvs) image_url = Inr (Json_response st (Generated u n t d l sc))"
    by (auto simp: api_request_failed_def)
  from assemble_returns [OF this] tr req data show ?thesis
    by auto
qed

subsection \<open>The example bodies\<close>

lemma job_status_complete: "job_status job_complete = Inr (JStr (lit ''COMPLETE''))"
  by (simp add: job_status_def job_complete_def getitem_key_def lit_def)

lemma job_status_pending: "job_status job_pending = Inr (JStr (lit ''PENDING''))"
  by (simp add: job_status_def job_pending_def getitem_key_def lit_def)

lemma first_image_url_complete:
  "first_image_url job_complete = Inr (JStr (lit ''https://cdn.example/1.png''))"
  by (simp add: first_image_url_def job_complete_def getitem_key_def getitem_0_def lit_def)

lemma generation_id_of_created: "generation_id_of job_created = Inr (JStr (lit ''job-1''))"
  by (simp add: generation_id_of_def job_created_def getitem_key_def lit_def)

lemma style_lookup_anime:
  "style_lookup (JStr (lit ''anime'')) =
     Inr (lit ''anime art style, manga-inspired, cel-shaded, vibrant colors,''
          @ line_break 8
          @ lit ''kawaii aesthetic, clean linework, anime character design'')"
  by (simp add: style_lookup_def ART_STYLE_PROMPTS_def lit_def)

lemma py_title_example: "py_title cpython (lit ''Happy Moon Dog'') = lit ''Happy Moon Dog''"
  by (simp add: py_title_def lower_ucs4_def cpython_def lit_def ascii_upper_def ascii_lower_def
      ascii_letter_def)

lemma acronym_example: "acronym cpython (lit ''Happy Moon Dog'') = lit ''HMD''"
  by (simp add: acronym_def py_upper_def py_split.simps cpython_def lit_def ascii_upper_def
      ascii_space_def)

subsection \<open>ASCII strings\<close>

lemma ascii_tablesD:
  assumes "ascii_tables R" and "c < 128"
  shows "to_upper_full R c = [ascii_upper c]" and "to_lower_full R c = [ascii_lower c]"
    and "to_title_full R c = [ascii_upper c]" and "is_cased R c = ascii_letter c"
    and "is_space R c = ascii_space c"
  using assms by (simp_all add: ascii_tables_def list_all_iff)

lemma ascii_tables_cpython: "ascii_tables cpython"
  by (auto simp: ascii_tables_def list_all_iff cpython_def ascii_upper_def)

lemma do_title_ascii:
  "ascii_tables R \<Longrightarrow> is_ascii s \<Longrightarrow> do_title R seen s p = title_ascii s p"
proof (induction s arbitrary: seen p)
  case Nil
  show ?case by simp
next
  case (Cons c s)
  then have c: "c < 128" and s: "is_ascii s"
    by (simp_all add: is_ascii_def)
  from c have "c \<noteq> 0x3A3" by simp
  with Cons.prems(1) c Cons.IH [OF Cons.prems(1) s] show ?case
    by (simp add: lower_ucs4_def ascii_tablesD)
qed

lemma ascii_case_facts:
  "ascii_letter (ascii_lower c) = ascii_letter c"
  "ascii_letter (ascii_upper c) = ascii_letter c"
  "ascii_lower (ascii_lower c) = ascii_lower c"
  "ascii_upper (ascii_upper c) = ascii_upper c"
  "c < 128 \<Longrightarrow> ascii_lower c < 128"
  "c < 128 \<Longrightarrow> ascii_upper c < 128"
  "uppercase_letter (ascii_upper c) = ascii_letter c"
  by (auto simp: ascii_letter_def ascii_lower_def ascii_upper_def uppercase_letter_def)

lemma title_ascii_is_ascii: "is_ascii s \<Longrightarrow> is_ascii (title_ascii s p)"
  by (induction s arbitrary: p) (simp_all add: is_ascii_def ascii_case_facts)

lemma title_ascii_idem: "title_ascii (title_ascii s p) p = title_ascii s p"
  by (induction s arbitrary: p) (simp_all add: ascii_case_facts)

lemma py_title_ascii_idem:
  assumes "ascii_tables R" and "is_ascii s"
  shows "py_title R (py_title R s) = py_title R s"
proof -
  have "py_title R s = title_ascii s False"
    using assms by (simp add: py_title_def do_title_ascii)
  moreover have "py_title R (title_ascii s False) = title_ascii (title_ascii s False) False"
    using assms by (simp add: py_title_def do_title_ascii title_ascii_is_ascii)
  ultimately show ?thesis
    by (simp add: title_ascii_idem)
qed

lemma py_split_subset: "w \<in> set (py_split R s) \<Longrightarrow> set w \<subseteq> set s"
proof (induction R s rule: py_split.induct)
  case (1 R s)
  show ?case
  proof (cases "dropWhile (is_space R) s")
    case Nil
    with "1.prems" show ?thesis
      by (simp add: py_split.simps [of R s])
  next
    case (Cons c rest)
    have sub: "set (c # rest) \<subseteq> set s"
      using set_dropWhileD [of _ "is_space R" s] Cons by auto
    from "1.prems" Cons
    consider "w = c # takeWhile (\<lambda>x. \<not> is_space R x) rest"
      | "w \<in> set (py_split R (dropWhile (\<lambda>x. \<not> is_space R x) rest))"
      by (auto simp: py_split.simps [of R s])
    then show ?thesis
    proof cases
      case 1
      then show ?thesis
        using sub by (auto dest: set_takeWhileD)
    next
      case 2
      then have "set w \<subseteq> set (dropWhile (\<lambda>x. \<not> is_space R x) rest)"
        using "1.IH" [OF Cons] by simp
      then show ?thesis
        using sub set_dropWhileD [of _ "\<lambda>x. \<not> is_space R x" rest] by auto
    qed
  qed
qed

lemma py_split_all_space: "list_all (is_space R) s \<Longrightarrow> py_split R s = []"
proof -
  assume "list_all (is_space R) s"
  then have d: "dropWhile (is_space R) s = []"
    by (simp add: list_all_iff dropWhile_eq_Nil_conv)
  show ?thesis
    by (subst py_split.simps) (simp only: d list.case)
qed

lemma acronym_ascii:
  assumes "ascii_tables R" and "is_ascii idea"
  shows "acronym R idea = map (\<lambda>w. ascii_upper (hd w)) (take 3 (py_split R idea))"
proof -
  have "py_upper R (take 1 w) = [ascii_upper (hd w)]" if "w \<in> set (take 3 (py_split R idea))" for w
  proof -
    from that have w: "w \<in> set (py_split R idea)"
      by (rule in_set_takeD)
    then have "w \<noteq> []"
      using py_split_words by blast
    then obtain c cs where wc: "w = c # cs"
      by (cases w) auto
    with w have "c \<in> set idea"
      using py_split_subset by fastforce
    with assms(2) have "c < 128"
      by (simp add: is_ascii_def list_all_iff)
    with assms(1) wc show ?thesis
      by (simp add: py_upper_def ascii_tablesD)
  qed
  then have "map (\<lambda>w. py_upper R (take 1 w)) (take 3 (py_split R idea))
           = map (\<lambda>w. [ascii_upper (hd w)]) (take 3 (py_split R idea))"
    by (intro map_cong refl)
  then have "acronym R idea = concat (map (\<lambda>w. [ascii_upper (hd w)]) (take 3 (py_split R idea)))"
    unfolding acronym_def by (rule arg_cong)
  also have "\<dots> = map (\<lambda>w. ascii_upper (hd w)) (take 3 (py_split R idea))"
    by (rule concat_map_singleton)
  finally show ?thesis .
qed

subsection \<open>Runs that reach the poll loop\<close>

lemma generate_completes:
  assumes "logged R [received_line R (JObj kvs),
                     processing_line R (request_idea kvs) (request_style kvs)]"
    and "truthy (request_idea kvs)"
    and "style_lookup (request_style kvs) = Inr style_prompt"
    and "logged R [making_request_line, status_line R 200, text_line response_text]"
    and "create up = Create_response 200 response_text (Inr generation_data)"
    and "generation_id_of generation_data = Inr generation_id"
    and "k < 30"
    and "\<forall>i<k. pending (polls up i)"
    and "completed (polls up k) = Some result"
  shows "generate R up (Inr (JObj kvs)) =
      (case first_image_url result of
         Inl e \<Rightarrow> (case inner_except R e of Inl e' \<Rightarrow> outer_except R e' | Inr r \<Rightarrow> r)
       | Inr image_url \<Rightarrow>
           (case assemble R (request_idea kvs) image_url of
              Inl e \<Rightarrow> (case inner_except R e of Inl e' \<Rightarrow> outer_except R e' | Inr r \<Rightarrow> r)
            | Inr r \<Rightarrow> r),
       Create_job (base_prompt R (request_idea kvs) style_prompt)
       # concat (replicate k [Query_status (fmt R generation_id), Sleep 1])
       @ [Query_status (fmt R generation_id)])"
proof -
  let ?g = "fmt R generation_id"
  let ?idea = "request_idea kvs"
  let ?out = "case first_image_url result of
                Inl e \<Rightarrow> Inl e
              | Inr image_url \<Rightarrow>
                  (case assemble R ?idea image_url of Inl e \<Rightarrow> Inl e | Inr r \<Rightarrow> Inr (Some r))"
  let ?tr = "concat (replicate k [Query_status ?g, Sleep 1]) @ [Query_status ?g]"
  have loop: "poll_loop R (polls up) ?idea ?g 30 0 = (?out, ?tr)"
  proof (rule poll_loop_completed)
    show "k < 30" by (rule assms(7))
  next
    fix j assume "j < k"
    then show "pending (polls up (0 + j))" using assms(8) by simp
  next
    show "completed (polls up (0 + k)) = Some result" using assms(9) by simp
  qed
  have "submit R up ?idea (base_prompt R ?idea style_prompt) =
     (case (?out, ?tr) of
        (Inl e, tr) \<Rightarrow> (inner_except R e, Create_job (base_prompt R ?idea style_prompt) # tr)
      | (Inr (Some r), tr) \<Rightarrow> (Inr r, Create_job (base_prompt R ?idea style_prompt) # tr)
      | (Inr None, tr) \<Rightarrow>
          (Inr (Json_response 500 (Error_body (lit ''Timeout waiting for image''))),
           Create_job (base_prompt R ?idea style_prompt) # tr))"
    using submit_polling [OF assms(4-6), of ?idea "base_prompt R ?idea style_prompt"] loop
    by simp
  then show ?thesis
    using generate_validated [OF assms(1-3), of up]
    by (simp split: sum.splits)
qed

text \<open>What the UTF-8 console of the example runtime takes.\<close>

lemma cpython_print:
  "py_print cpython line = None \<longleftrightarrow> list_all (\<lambda>c. c < 0xD800 \<or> 0xDFFF < c) line"
proof -
  have "(0xD800 \<le> c \<and> c \<le> 0xDFFF) = (\<not> (c < 0xD800 \<or> 0xDFFF < c))" for c :: nat
    by auto
  then show ?thesis
    by (simp add: py_print_def cpython_def list_all_iff list_ex_iff)
qed

text \<open>A run that completes on the first status query, for any string idea.\<close>

lemma mock_run:
  assumes "idea \<noteq> []"
    and "logged R [received_line R (JObj [(lit ''idea'', JStr idea)]),
                   processing_line R (JStr idea) (JStr (lit ''pixel'')),
                   making_request_line, status_line R 200, text_line job_created_text]"
  shows "generate R (mock_upstream [Poll_response 200 (Inr job_complete)])
           (Inr (JObj [(lit ''idea'', JStr idea)])) =
         (Json_response 200
            (Generated (JStr (lit ''https://cdn.example/1.png'')) (py_title R idea) (acronym R idea)
               (lit ''Revolutionary '' @ idea @ lit '' token powered by advanced AI technology.'')
               [lit ''Twitter Account'', lit ''Telegram Group'', lit ''Website'']
               True),
          [Create_job (base_prompt R (JStr idea) default_style_prompt),
           Query_status (lit ''job-1'')])"
proof -
  let ?kvs = "[(lit ''idea'', JStr idea)]"
  let ?up = "mock_upstream [Poll_response 200 (Inr job_complete)]"
  have idea: "request_idea ?kvs = JStr idea"
    by (simp add: request_idea_def)
  have style: "request_style ?kvs = JStr (lit ''pixel'')"
    by (simp add: request_style_def lit_def)
  have l1: "logged R [received_line R (JObj ?kvs),
                      processing_line R (request_idea ?kvs) (request_style ?kvs)]"
    using assms(2) by (simp add: logged_simps idea style)
  have l2: "logged R [making_request_line, status_line R 200, text_line job_created_text]"
    using assms(2) by (simp add: logged_simps)
  have h1: "truthy (request_idea ?kvs)"
    using assms(1) by (simp add: idea)
  have h2: "style_lookup (request_style ?kvs) = Inr default_style_prompt"
    unfolding style
    by (simp add: style_lookup_def default_style_prompt_def ART_STYLE_PROMPTS_def lit_def)
  have h3: "create ?up = Create_response 200 job_created_text (Inr job_created)"
    by (simp add: mock_upstream_def)
  have h7: "completed (polls ?up 0) = Some job_complete"
    by (simp add: mock_upstream_def script_def job_status_complete)
  show ?thesis
    using generate_completes [OF l1 h1 h2 l2 h3 generation_id_of_created _ _ h7]
    by (simp add: first_image_url_complete idea assemble_str fmt_def)
qed

lemma mock_lines_cpython:
  assumes "list_all (\<lambda>c. c < 0xD800) idea"
  shows "logged cpython [received_line cpython (JObj [(lit ''idea'', JStr idea)]),
                   processing_line cpython (JStr idea) (JStr (lit ''pixel'')),
                   making_request_line, status_line cpython 200, text_line job_created_text]"
proof -
  have a: "list_all (\<lambda>c. c < 0xD800 \<or> 0xDFFF < c) idea"
    using assms by (simp add: list_all_iff)
  have "str_of cpython v = []" for v
    by (simp add: cpython_def)
  with a show ?thesis
    by (simp add: logged_simps cpython_print received_line_def processing_line_def
        making_request_line_def status_line_def text_line_def job_created_text_def quoted_def
        fmt_def lit_def)
qed

lemma submit_sent_prompt:
  assumes "py_print R making_request_line = None"
  shows "sent_prompt (snd (submit R up idea p)) = Some p"
  using assms
  by (simp add: submit_def inner_try_def
      split: create_result.splits sum.splits prod.splits option.splits)

lemma outer_except_not_rejection:
  "outer_except R e \<noteq> Json_response 400 b"
  using outer_except_cases [of R e] by auto

lemma submit_not_rejection:
  assumes "submit R up idea p = (Inr r, tr)"
  shows "r \<noteq> Json_response 400 (Error_body (lit ''No idea provided''))"
proof -
  from submit_returns [OF assms]
  consider st response_text
      where "r = Json_response st (Error_body (lit ''Failed to generate image: '' @ response_text))"
    | image_url where "assemble R idea image_url = Inr r"
    | "r = Json_response 500 (Error_body (lit ''Timeout waiting for image''))"
    | e where "r = api_request_failed R e"
    by blast
  then show ?thesis
  proof cases
    case 1
    then show ?thesis by (simp add: lit_def)
  next
    case 2
    then have "status r = 200"
      using assemble_returns by fastforce
    then show ?thesis by auto
  next
    case 3
    then show ?thesis by simp
  next
    case 4
    then show ?thesis by (simp add: api_request_failed_def)
  qed
qed

lemma generate_not_rejection:
  assumes "truthy (request_idea kvs)"
  shows "fst (generate R up (Inr (JObj kvs))) \<noteq> Json_response 400 (Error_body (lit ''No idea provided''))"
proof -
  have sub: "fst (case submit R up i p of
                    (Inl e, tr) \<Rightarrow> (outer_except R e, tr)
                  | (Inr r, tr) \<Rightarrow> (r, tr))
             \<noteq> Json_response 400 (Error_body (lit ''No idea provided''))" for i p
  proof -
    obtain out tr where s: "submit R up i p = (out, tr)"
      by (cases "submit R up i p")
    show ?thesis
    proof (cases out)
      case (Inl e)
      with s show ?thesis
        by (simp add: outer_except_not_rejection)
    next
      case (Inr r)
      with s submit_not_rejection [of R up i p r tr] show ?thesis
        by simp
    qed
  qed
  show ?thesis
    using assms sub outer_except_not_rejection
    by (simp add: generate_object split: sum.splits option.splits)
qed

subsection \<open>Bodies that are no JSON object\<close>

text \<open>These take the outer \<^verbatim>\<open>except\<close>, and nothing is sent upstream.\<close>

lemma generate_unparsed: "generate R up (Inl e) = (outer_except R e, [])"
  by (simp add: generate_def outer_try_def)

lemma generate_not_object:
  assumes "\<And>kvs. data \<noteq> JObj kvs"
  shows "generate R up (Inr data) =
     (case py_print R (received_line R data) of
        Some e \<Rightarrow> (outer_except R e, [])
      | None \<Rightarrow> (outer_except R AttributeError, []))"
  using assms
  by (cases data) (auto simp: generate_def outer_try_def dict_get_def split: option.splits)

subsection \<open>Non-200 answers and pending answers\<close>

lemma non_200_as_pending:
  assumes "ps i = Poll_response st js" and "st \<noteq> 200"
    and "ps' i = Poll_response 200 (Inr job_pending)"
    and "\<And>j. j \<noteq> i \<Longrightarrow> ps' j = ps j"
  shows "poll_loop R ps' idea g n k = poll_loop R ps idea g n k"
proof (induction n arbitrary: k)
  case 0
  show ?case by simp
next
  case (Suc n)
  show ?case
  proof (cases "k = i")
    case True
    have "attempt R idea 200 (Inr job_pending) = Inr None"
      by (rule attempt_pending) (simp add: job_status_pending, simp add: lit_def)
    moreover have "attempt R idea st js = Inr None"
      using assms(2) by (simp add: attempt_def)
    ultimately show ?thesis
      using True assms(1,3) by (simp add: Suc.IH)
  next
    case False
    then show ?thesis
      by (simp add: Suc.IH assms(4) split: poll_result.splits sum.splits option.splits)
  qed
qed

subsection \<open>The style fragment inside the prompt\<close>

lemma style_keys:
  "map fst ART_STYLE_PROMPTS =
     [lit ''pixel'', lit ''anime'', lit ''3d'', lit ''minimalist'', lit ''cartoon'', lit ''realistic'']"
  by (simp add: ART_STYLE_PROMPTS_def)

lemma sublist_base_prompt: "sublist fragment (base_prompt R idea fragment)"
proof -
  have "base_prompt R idea fragment =
      (lit ''detailed cryptocurrency mascot logo of a '' @ fmt R idea @ lit '','' @ line_break 12)
      @ fragment
      @ (lit '','' @ line_break 12 @ lit ''centered composition, clean vectorized style,''
         @ line_break 12 @ lit ''suitable for crypto token, professional logo design'')"
    by (simp add: base_prompt_def)
  then show ?thesis
    by (simp only: sublist_appendI)
qed

subsection \<open>An initial of two code points\<close>

text \<open>Beyond ASCII one word can give two code points: \<^verbatim>\<open>upper\<close> of sharp s is \<^verbatim>\<open>SS\<close>.\<close>

lemma sharp_s_acronym: "acronym cpython [0xDF, 0x61, 0x20, 0xDF, 0x62] = lit ''SSSS''"
  by (simp add: acronym_def py_upper_def py_split.simps cpython_def lit_def ascii_upper_def
      ascii_space_def)

subsection \<open>What a status query presupposes\<close>

text \<open>Only a run that got through the validation and the job creation asks for the status.\<close>

lemma inner_try_polling:
  assumes "0 < status_queries (snd (inner_try R up idea p))"
  shows "\<exists>response_text generation_data generation_id.
           logged R [making_request_line, status_line R 200, text_line response_text]
           \<and> create up = Create_response 200 response_text (Inr generation_data)
           \<and> generation_id_of generation_data = Inr generation_id"
proof (cases "py_print R making_request_line")
  case (Some e)
  with assms show ?thesis
    by (simp add: inner_try_def status_queries_def)
next
  case p1: None
  show ?thesis
  proof (cases "create up")
    case (Create_raises e)
    with assms p1 show ?thesis
      by (simp add: inner_try_def status_queries_def)
  next
    case cr: (Create_response st response_text parsed)
    show ?thesis
    proof (cases "py_print R (status_line R st)")
      case (Some e)
      with assms p1 cr show ?thesis
        by (simp add: inner_try_def status_queries_def)
    next
      case p2: None
      show ?thesis
      proof (cases "py_print R (text_line response_text)")
        case (Some e)
        with assms p1 cr p2 show ?thesis
          by (simp add: inner_try_def status_queries_def)
      next
        case p3: None
        show ?thesis
        proof (cases "st = 200")
          case False
          with assms p1 cr p2 p3 show ?thesis
            by (simp add: inner_try_def status_queries_def)
        next
          case st: True
          show ?thesis
          proof (cases parsed)
            case (Inl e)
            with assms p1 cr p2 p3 st show ?thesis
              by (simp add: inner_try_def status_queries_def)
          next
            case gd: (Inr generation_data)
            show ?thesis
            proof (cases "generation_id_of generation_data")
              case (Inl e)
              with assms p1 cr p2 p3 st gd show ?thesis
                by (simp add: inner_try_def status_queries_def)
            next
              case (Inr generation_id)
              with p1 cr p2 p3 st gd show ?thesis
                by (simp add: logged_simps)
            qed
          qed
        qed
      qed
    qed
  qed
qed

lemma polling_reached:
  assumes "0 < status_queries (snd (generate R up req))"
  shows "\<exists>kvs style_prompt response_text generation_data generation_id.
           req = Inr (JObj kvs)
           \<and> logged R [received_line R (JObj kvs),
                        processing_line R (request_idea kvs) (request_style kvs)]
           \<and> truthy (request_idea kvs)
           \<and> style_lookup (request_style kvs) = Inr style_prompt
           \<and> logged R [making_request_line, status_line R 200, text_line response_text]
           \<and> create up = Create_response 200 response_text (Inr generation_data)
           \<and> generation_id_of generation_data = Inr generation_id"
proof -
  have sub: "snd (case submit R up idea p of
                    (Inl e, tr) \<Rightarrow> (outer_except R e, tr)
                  | (Inr r, tr) \<Rightarrow> (r, tr)) = snd (inner_try R up idea p)" for idea p
    by (simp add: submit_def split: prod.splits sum.splits)
  from assms obtain data where req: "req = Inr data"
    by (cases req) (simp_all add: generate_def outer_try_def status_queries_def)
  have "\<exists>kvs. data = JObj kvs"
  proof (rule ccontr)
    assume "\<not> (\<exists>kvs. data = JObj kvs)"
    then have "\<And>kvs. data \<noteq> JObj kvs"
      by blast
    from generate_not_object [OF this, of R up] assms req show False
      by (simp add: status_queries_def split: option.splits)
  qed
  then obtain kvs where data: "data = JObj kvs"
    by blast
  note run = assms [unfolded req data generate_object]
  have l1: "py_print R (received_line R (JObj kvs)) = None"
    using run by (cases "py_print R (received_line R (JObj kvs))") (simp_all add: status_queries_def)
  have l2: "py_print R (processing_line R (request_idea kvs) (request_style kvs)) = None"
    using run l1
    by (cases "py_print R (processing_line R (request_idea kvs) (request_style kvs))")
      (simp_all add: status_queries_def)
  have tr: "truthy (request_idea kvs)"
    using run l1 l2 by (cases "truthy (request_idea kvs)") (simp_all add: status_queries_def)
  obtain style_prompt where sp: "style_lookup (request_style kvs) = Inr style_prompt"
    using run l1 l2 tr
    by (cases "style_lookup (request_style kvs)") (simp_all add: status_queries_def)
  have "0 < status_queries (snd (inner_try R up (request_idea kvs)
                    (base_prompt R (request_idea kvs) style_prompt)))"
    using run l1 l2 tr sp by (simp add: sub)
  from inner_try_polling [OF this] l1 l2 tr sp req data show ?thesis
    by (simp add: logged_simps)
qed

subsection \<open>The body of a completed job\<close>

text \<open>
  A status body read by its structure: under \<^verbatim>\<open>generations_by_pk\<close> the state
  \<^verbatim>\<open>COMPLETE\<close>, and a list of images whose first one has a \<^verbatim>\<open>url\<close>.
\<close>

lemma completed_by_structure:
  assumes "map_of result (lit ''generations_by_pk'') = Some (JObj job)"
    and "map_of job (lit ''status'') = Some (JStr (lit ''COMPLETE''))"
  shows "completed (Poll_response 200 (Inr (JObj result))) = Some (JObj result)"
  using assms by (simp add: job_status_def getitem_key_def)

lemma first_image_url_by_structure:
  assumes "map_of result (lit ''generations_by_pk'') = Some (JObj job)"
    and "map_of job (lit ''generated_images'') = Some (JArr (JObj img # others))"
    and "map_of img (lit ''url'') = Some url"
  shows "first_image_url (JObj result) = Inr url"
  using assms by (simp add: first_image_url_def getitem_key_def getitem_0_def)

section \<open>The claims\<close>

text \<open>
  C1. A run reaches the poll loop when the body is a JSON object with a true idea and a
  hashable style, the console takes the lines printed on the way, and the job-creation
  call answers 200 with a text that parses and holds a generation id; no status query
  is issued otherwise (lemma \<open>polling_reached\<close>). When each of the 30 status queries
  of such a run finishes without reporting completion, the handler answers HTTP 500
  with the body \<^verbatim>\<open>{"error": "Timeout waiting for image"}\<close>, and it has issued
  exactly 30 status queries.
\<close>

theorem poll_timeout:
  assumes "logged R [received_line R (JObj kvs),
                     processing_line R (request_idea kvs) (request_style kvs)]"
    and "truthy (request_idea kvs)"
    and "style_lookup (request_style kvs) = Inr style_prompt"
    and "logged R [making_request_line, status_line R 200, text_line response_text]"
    and "create up = Create_response 200 response_text (Inr generation_data)"
    and "generation_id_of generation_data = Inr generation_id"
    and "\<forall>i<30. pending (polls up i)"
  shows "fst (generate R up (Inr (JObj kvs))) =
           Json_response 500 (Error_body (lit ''Timeout waiting for image''))
         \<and> status_queries (snd (generate R up (Inr (JObj kvs)))) = 30"
proof -
  have "poll_loop R (polls up) (request_idea kvs) (fmt R generation_id) 30 0 =
          (Inr None, concat (replicate 30 [Query_status (fmt R generation_id), Sleep 1]))"
    using assms(7) by (intro poll_loop_pending) simp
  then have "generate R up (Inr (JObj kvs)) =
      (Json_response 500 (Error_body (lit ''Timeout waiting for image'')),
       Create_job (base_prompt R (request_idea kvs) style_prompt)
       # concat (replicate 30 [Query_status (fmt R generation_id), Sleep 1]))"
    using generate_validated [OF assms(1-3), of up]
      submit_polling [OF assms(4-6), of "request_idea kvs"
        "base_prompt R (request_idea kvs) style_prompt"]
    by simp
  moreover have "status_queries (Create_job p # concat (replicate 30 [Query_status g, Sleep 1]) @ []) = 30" for p g
    using status_queries_rounds [of 30 g "[]"] by (simp add: status_queries_def)
  ultimately show ?thesis
    by simp
qed

theorem poll_timeout_witness:
  "truthy (request_idea [(lit ''idea'', JStr (lit ''Doge''))])
   \<and> list_all pending (map (polls (mock_upstream [])) [0..<30])
   \<and> fst (generate cpython (mock_upstream []) (Inr (JObj [(lit ''idea'', JStr (lit ''Doge''))]))) =
       Json_response 500 (Error_body (lit ''Timeout waiting for image''))
   \<and> status_queries
       (snd (generate cpython (mock_upstream []) (Inr (JObj [(lit ''idea'', JStr (lit ''Doge''))])))) = 30"
proof -
  let ?kvs = "[(lit ''idea'', JStr (lit ''Doge''))]"
  have idea: "request_idea ?kvs = JStr (lit ''Doge'')"
    by (simp add: request_idea_def)
  have style: "request_style ?kvs = JStr (lit ''pixel'')"
    by (simp add: request_style_def lit_def)
  have lines: "logged cpython [received_line cpython (JObj ?kvs),
                   processing_line cpython (JStr (lit ''Doge'')) (JStr (lit ''pixel'')),
                   making_request_line, status_line cpython 200, text_line job_created_text]"
    by (rule mock_lines_cpython) (simp add: lit_def)
  have l1: "logged cpython [received_line cpython (JObj ?kvs),
                     processing_line cpython (request_idea ?kvs) (request_style ?kvs)]"
    using lines by (simp add: logged_simps idea style)
  have l2: "logged cpython [making_request_line, status_line cpython 200, text_line job_created_text]"
    using lines by (simp add: logged_simps)
  have h1: "truthy (request_idea ?kvs)"
    by (simp add: idea) (simp add: lit_def)
  have h2: "style_lookup (request_style ?kvs) = Inr default_style_prompt"
    unfolding style
    by (simp add: style_lookup_def default_style_prompt_def ART_STYLE_PROMPTS_def lit_def)
  have h3: "create (mock_upstream []) = Create_response 200 job_created_text (Inr job_created)"
    by (simp add: mock_upstream_def)
  have h5: "\<forall>i<30. pending (polls (mock_upstream []) i)"
    by (simp add: mock_pending)
  have h6: "list_all pending (map (polls (mock_upstream [])) [0..<30])"
    by (simp add: list_all_iff mock_pending)
  show ?thesis
    using h1 h6 poll_timeout [OF l1 h1 h2 l2 h3 generation_id_of_created h5] by simp
qed

text \<open>
  C2. In a run that reaches the poll loop, when the first \<open>N - 1\<close> status queries finish
  without completion and the \<open>N\<close>-th (\<open>1 \<le> N \<le> 30\<close>) answers 200 with a body whose
  \<^verbatim>\<open>generations_by_pk\<close> holds the status \<^verbatim>\<open>COMPLETE\<close>, the loop ends on that
  attempt: exactly \<open>N\<close> status queries are issued. When moreover the
  \<^verbatim>\<open>generated_images\<close> of that body is a list that starts with an object holding a
  \<^verbatim>\<open>url\<close>, and the idea is a string, the response is 200 and its \<^verbatim>\<open>imageUrl\<close> is
  the \<^verbatim>\<open>url\<close> of that first image, whatever images follow it, with the name and
  ticker derived from the idea. The example after it is the end-to-end run of the
  specification: \<^verbatim>\<open>Happy Moon Dog\<close>, style \<^verbatim>\<open>anime\<close>, completion on attempt 3, with
  two images in the completed body.
\<close>

theorem poll_completes_on_attempt:
  assumes "logged R [received_line R (JObj kvs),
                     processing_line R (request_idea kvs) (request_style kvs)]"
    and "truthy (request_idea kvs)"
    and "style_lookup (request_style kvs) = Inr style_prompt"
    and "logged R [making_request_line, status_line R 200, text_line response_text]"
    and "create up = Create_response 200 response_text (Inr generation_data)"
    and "generation_id_of generation_data = Inr generation_id"
    and "1 \<le> N" and "N \<le> 30"
    and "\<forall>i<N - 1. pending (polls up i)"
    and "polls up (N - 1) = Poll_response 200 (Inr (JObj result))"
    and "map_of result (lit ''generations_by_pk'') = Some (JObj job)"
    and "map_of job (lit ''status'') = Some (JStr (lit ''COMPLETE''))"
  shows "status_queries (snd (generate R up (Inr (JObj kvs)))) = N
         \<and> (\<forall>img others url idea.
               map_of job (lit ''generated_images'') = Some (JArr (JObj img # others))
               \<and> map_of img (lit ''url'') = Some url
               \<and> request_idea kvs = JStr idea \<longrightarrow>
               fst (generate R up (Inr (JObj kvs))) =
                 Json_response 200
                   (Generated url (py_title R idea) (acronym R idea)
                      (lit ''Revolutionary '' @ idea @ lit '' token powered by advanced AI technology.'')
                      [lit ''Twitter Account'', lit ''Telegram Group'', lit ''Website'']
                      True))"
proof -
  have k: "N - 1 < 30"
    using assms(7,8) by simp
  have c: "completed (polls up (N - 1)) = Some (JObj result)"
    using assms(10) completed_by_structure [OF assms(11,12)] by simp
  note gen = generate_completes [OF assms(1-6) k assms(9) c]
  have count: "status_queries (Create_job p # concat (replicate (N - 1) [Query_status g, Sleep 1])
          @ [Query_status g]) = N" for p g
    using status_queries_rounds [of "N - 1" g "[Query_status g]"] assms(7)
    by (simp add: status_queries_def)
  have resp: "fst (generate R up (Inr (JObj kvs))) =
                 Json_response 200
                   (Generated url (py_title R idea) (acronym R idea)
                      (lit ''Revolutionary '' @ idea @ lit '' token powered by advanced AI technology.'')
                      [lit ''Twitter Account'', lit ''Telegram Group'', lit ''Website'']
                      True)"
    if "map_of job (lit ''generated_images'') = Some (JArr (JObj img # others))"
      and "map_of img (lit ''url'') = Some url"
      and "request_idea kvs = JStr idea"
    for img others url idea
    using first_image_url_by_structure [OF assms(11) that(1,2)] that(3)
    by (simp add: gen assemble_str)
  from count resp show ?thesis
    by (simp add: gen)
qed

theorem poll_completes_on_attempt_witness:
  "status_queries
     (snd (generate cpython
        (mock_upstream [Poll_response 200 (Inr job_pending), Poll_response 200 (Inr job_pending),
                        Poll_response 200 (Inr job_complete)])
        (Inr (JObj [(lit ''idea'', JStr (lit ''Happy Moon Dog'')),
                    (lit ''artStyle'', JStr (lit ''anime''))])))) = 3
   \<and> fst (generate cpython
        (mock_upstream [Poll_response 200 (Inr job_pending), Poll_response 200 (Inr job_pending),
                        Poll_response 200 (Inr job_complete)])
        (Inr (JObj [(lit ''idea'', JStr (lit ''Happy Moon Dog'')),
                    (lit ''artStyle'', JStr (lit ''anime''))]))) =
       Json_response 200
         (Generated (JStr (lit ''https://cdn.example/1.png'')) (lit ''Happy Moon Dog'') (lit ''HMD'')
            (lit ''Revolutionary Happy Moon Dog token powered by advanced AI technology.'')
            [lit ''Twitter Account'', lit ''Telegram Group'', lit ''Website'']
            True)"
proof -
  let ?kvs = "[(lit ''idea'', JStr (lit ''Happy Moon Dog'')), (lit ''artStyle'', JStr (lit ''anime''))]"
  let ?up = "mock_upstream [Poll_response 200 (Inr job_pending), Poll_response 200 (Inr job_pending),
                        Poll_response 200 (Inr job_complete)]"
  let ?job = "[(lit ''status'', JStr (lit ''COMPLETE'')),
               (lit ''generated_images'',
                JArr [JObj [(lit ''url'', JStr (lit ''https://cdn.example/1.png''))],
                      JObj [(lit ''url'', JStr (lit ''https://cdn.example/2.png''))]])]"
  let ?result = "[(lit ''generations_by_pk'', JObj ?job)]"
  have idea: "request_idea ?kvs = JStr (lit ''Happy Moon Dog'')"
    by (simp add: request_idea_def lit_def)
  have style: "request_style ?kvs = JStr (lit ''anime'')"
    by (simp add: request_style_def lit_def)
  have l1: "logged cpython [received_line cpython (JObj ?kvs),
                     processing_line cpython (request_idea ?kvs) (request_style ?kvs)]"
    unfolding idea style
    by (simp add: logged_simps cpython_print received_line_def processing_line_def fmt_def)
      (simp add: cpython_def lit_def)
  have l2: "logged cpython [making_request_line, status_line cpython 200, text_line job_created_text]"
    by (simp add: logged_simps cpython_print making_request_line_def status_line_def text_line_def
        job_created_text_def quoted_def)
      (simp add: cpython_def lit_def)
  have h1: "truthy (request_idea ?kvs)"
    by (simp add: idea) (simp add: lit_def)
  have h2: "style_lookup (request_style ?kvs) =
     Inr (lit ''anime art style, manga-inspired, cel-shaded, vibrant colors,''
          @ line_break 8
          @ lit ''kawaii aesthetic, clean linework, anime character design'')"
    by (simp add: style style_lookup_anime)
  have h3: "create ?up = Create_response 200 job_created_text (Inr job_created)"
    by (simp add: mock_upstream_def)
  have h7: "\<forall>i<3 - 1. pending (polls ?up i)"
    by (simp add: mock_upstream_def script_def job_status_pending less_Suc_eq numeral_2_eq_2)
      (simp add: lit_def)
  have h8: "polls ?up (3 - 1) = Poll_response 200 (Inr (JObj ?result))"
    by (simp add: mock_upstream_def script_def job_complete_def)
  have h9: "map_of ?result (lit ''generations_by_pk'') = Some (JObj ?job)"
    by simp
  have h10: "map_of ?job (lit ''status'') = Some (JStr (lit ''COMPLETE''))"
    by simp
  have h11: "map_of ?job (lit ''generated_images'') =
      Some (JArr (JObj [(lit ''url'', JStr (lit ''https://cdn.example/1.png''))]
                  # [JObj [(lit ''url'', JStr (lit ''https://cdn.example/2.png''))]]))"
    by (simp add: lit_def)
  have h12: "map_of [(lit ''url'', JStr (lit ''https://cdn.example/1.png''))] (lit ''url'') =
      Some (JStr (lit ''https://cdn.example/1.png''))"
    by simp
  have d: "lit ''Revolutionary '' @ lit ''Happy Moon Dog'' @ lit '' token powered by advanced AI technology.''
      = lit ''Revolutionary Happy Moon Dog token powered by advanced AI technology.''"
    by (simp add: lit_def)
  have n1: "(1::nat) \<le> 3" and n2: "(3::nat) \<le> 30"
    by simp_all
  note th = poll_completes_on_attempt [OF l1 h1 h2 l2 h3 generation_id_of_created n1 n2 h7 h8 h9 h10]
  from th have n: "status_queries (snd (generate cpython ?up (Inr (JObj ?kvs)))) = 3"
    by (rule conjunct1)
  note th [THEN conjunct2, rule_format, OF conjI [OF h11 conjI [OF h12 idea]]]
  then have "fst (generate cpython ?up (Inr (JObj ?kvs))) =
      Json_response 200
         (Generated (JStr (lit ''https://cdn.example/1.png'')) (lit ''Happy Moon Dog'') (lit ''HMD'')
            (lit ''Revolutionary Happy Moon Dog token powered by advanced AI technology.'')
            [lit ''Twitter Account'', lit ''Telegram Group'', lit ''Website'']
            True)"
    by (simp only: py_title_example acronym_example d)
  with n show ?thesis
    by (rule conjI)
qed

text \<open>
  C3, as the code has it. When the job-creation call answers with a status other than
  200 and the console takes the two lines that print the status and the response text,
  the handler answers with that same status and the error
  \<^verbatim>\<open>Failed to generate image: \<close> followed by the upstream response text, and no
  status query is issued.
\<close>

theorem creation_failure_propagated:
  assumes "logged R [received_line R (JObj kvs),
                     processing_line R (request_idea kvs) (request_style kvs)]"
    and "truthy (request_idea kvs)"
    and "style_lookup (request_style kvs) = Inr style_prompt"
    and "logged R [making_request_line, status_line R st, text_line response_text]"
    and "create up = Create_response st response_text parsed"
    and "st \<noteq> 200"
  shows "fst (generate R up (Inr (JObj kvs))) =
           Json_response st (Error_body (lit ''Failed to generate image: '' @ response_text))
         \<and> sublist response_text (error (body (fst (generate R up (Inr (JObj kvs))))))
         \<and> status_queries (snd (generate R up (Inr (JObj kvs)))) = 0"
  using generate_validated [OF assms(1-3), of up]
    submit_refused [OF assms(4-6), of "request_idea kvs"
      "base_prompt R (request_idea kvs) style_prompt"]
  by (simp add: status_queries_def)

theorem creation_failure_propagated_witness:
  "fst (generate cpython
      \<lparr> create = Create_response 429 (lit ''rate limit exceeded'') (Inl (External 0)),
        polls = script [] \<rparr>
      (Inr (JObj [(lit ''idea'', JStr (lit ''Doge''))]))) =
     Json_response 429 (Error_body (lit ''Failed to generate image: rate limit exceeded''))
   \<and> status_queries (snd (generate cpython
      \<lparr> create = Create_response 429 (lit ''rate limit exceeded'') (Inl (External 0)),
        polls = script [] \<rparr>
      (Inr (JObj [(lit ''idea'', JStr (lit ''Doge''))])))) = 0"
proof -
  let ?kvs = "[(lit ''idea'', JStr (lit ''Doge''))]"
  let ?up = "\<lparr> create = Create_response 429 (lit ''rate limit exceeded'') (Inl (External 0)),
        polls = script [] \<rparr>"
  have idea: "request_idea ?kvs = JStr (lit ''Doge'')"
    by (simp add: request_idea_def)
  have style: "request_style ?kvs = JStr (lit ''pixel'')"
    by (simp add: request_style_def lit_def)
  have l1: "logged cpython [received_line cpython (JObj ?kvs),
                     processing_line cpython (request_idea ?kvs) (request_style ?kvs)]"
    unfolding idea style
    by (simp add: logged_simps cpython_print received_line_def processing_line_def fmt_def)
      (simp add: cpython_def lit_def)
  have l2: "logged cpython [making_request_line, status_line cpython 429,
                            text_line (lit ''rate limit exceeded'')]"
    by (simp add: logged_simps cpython_print making_request_line_def status_line_def text_line_def)
      (simp add: cpython_def lit_def)
  have h1: "truthy (request_idea ?kvs)"
    by (simp add: idea) (simp add: lit_def)
  have h2: "style_lookup (request_style ?kvs) = Inr default_style_prompt"
    unfolding style
    by (simp add: style_lookup_def default_style_prompt_def ART_STYLE_PROMPTS_def lit_def)
  have h3: "create ?up = Create_response 429 (lit ''rate limit exceeded'') (Inl (External 0))"
    by simp
  have h4: "(429::int) \<noteq> 200"
    by simp
  have "lit ''Failed to generate image: '' @ lit ''rate limit exceeded''
      = lit ''Failed to generate image: rate limit exceeded''"
    by (simp add: lit_def)
  then show ?thesis
    using creation_failure_propagated [OF l1 h1 h2 l2 h3 h4] by simp
qed

text \<open>
  C3 as stated fails for a response text that the console does not take. The
  job-creation call answers 429 with a text that holds the lone surrogate U+D800 (the
  body \<^verbatim>\<open>+2AA-\<close> sent with the charset \<^verbatim>\<open>utf-7\<close> decodes to it). The print of the
  response text comes before the test of the status and raises UnicodeEncodeError on a
  UTF-8 console; the inner \<^verbatim>\<open>except\<close> answers 500 with \<^verbatim>\<open>API request failed: \<close> and
  the text of that exception, so neither the status 429 nor the response text is in
  the response.
\<close>

theorem unprintable_response_text_counterexample:
  "generate cpython
      \<lparr> create = Create_response 429 [0xD800] (Inl (External 0)), polls = script [] \<rparr>
      (Inr (JObj [(lit ''idea'', JStr (lit ''Doge''))])) =
   (Json_response 500
      (Error_body (lit ''API request failed: '' @ exn_str cpython UnicodeEncodeError)),
    [Create_job (base_prompt cpython (JStr (lit ''Doge'')) default_style_prompt)])"
proof -
  let ?kvs = "[(lit ''idea'', JStr (lit ''Doge''))]"
  let ?up = "\<lparr> create = Create_response 429 [0xD800] (Inl (External 0)), polls = script [] \<rparr>"
  have idea: "request_idea ?kvs = JStr (lit ''Doge'')"
    by (simp add: request_idea_def)
  have style: "request_style ?kvs = JStr (lit ''pixel'')"
    by (simp add: request_style_def lit_def)
  have l1: "logged cpython [received_line cpython (JObj ?kvs),
                     processing_line cpython (request_idea ?kvs) (request_style ?kvs)]"
    unfolding idea style
    by (simp add: logged_simps cpython_print received_line_def processing_line_def fmt_def)
      (simp add: cpython_def lit_def)
  have h1: "truthy (request_idea ?kvs)"
    by (simp add: idea) (simp add: lit_def)
  have h2: "style_lookup (request_style ?kvs) = Inr default_style_prompt"
    unfolding style
    by (simp add: style_lookup_def default_style_prompt_def ART_STYLE_PROMPTS_def lit_def)
  have p1: "py_print cpython making_request_line = None"
    by (simp add: cpython_print making_request_line_def) (simp add: lit_def)
  have p2: "py_print cpython (status_line cpython 429) = None"
    by (simp add: cpython_print status_line_def) (simp add: cpython_def lit_def)
  have p3: "py_print cpython (text_line [0xD800]) = Some UnicodeEncodeError"
    by (simp add: py_print_def cpython_def text_line_def)
  have p4: "py_print cpython (api_error_line cpython UnicodeEncodeError) = None"
    by (simp add: cpython_print api_error_line_def) (simp add: cpython_def lit_def)
  have "submit cpython ?up (JStr (lit ''Doge'')) p =
      (Inr (api_request_failed cpython UnicodeEncodeError), [Create_job p])" for p
    by (simp add: submit_def inner_try_def inner_except_def p1 p2 p3 p4)
  then show ?thesis
    using generate_validated [OF l1 h1 h2, of ?up]
    by (simp add: idea api_request_failed_def)
qed

text \<open>
  C4. In the poll loop, a status query answered with a status other than 200 neither
  ends the loop nor raises: the attempt uses up one iteration, the handler sleeps, and
  the loop goes on with the next attempt and one iteration less. Wherever the loop
  stands, such an answer counts as much as an answer that reports a pending job.
\<close>

theorem non_200_poll_skipped:
  assumes "ps i = Poll_response st js" and "st \<noteq> 200"
  shows "poll_loop R ps idea generation_id (Suc n) i =
           (fst (poll_loop R ps idea generation_id n (Suc i)),
            Query_status generation_id # Sleep 1 # snd (poll_loop R ps idea generation_id n (Suc i)))
         \<and> poll_loop R ps idea generation_id m k =
             poll_loop R (ps(i := Poll_response 200 (Inr job_pending))) idea generation_id m k"
proof
  show "poll_loop R ps idea generation_id (Suc n) i =
           (fst (poll_loop R ps idea generation_id n (Suc i)),
            Query_status generation_id # Sleep 1 # snd (poll_loop R ps idea generation_id n (Suc i)))"
    using assms by (simp add: attempt_def split: prod.splits)
next
  have "poll_loop R (ps(i := Poll_response 200 (Inr job_pending))) idea generation_id m k =
        poll_loop R ps idea generation_id m k"
    by (rule non_200_as_pending [of ps i st js]) (simp_all add: assms)
  then show "poll_loop R ps idea generation_id m k =
             poll_loop R (ps(i := Poll_response 200 (Inr job_pending))) idea generation_id m k"
    by (rule sym)
qed

theorem non_200_poll_skipped_witness:
  "poll_loop cpython
     (script [Poll_response 503 (Inl (External 0)), Poll_response 200 (Inr job_complete)])
     (JStr (lit ''Doge'')) (lit ''job-1'') 30 0 =
     (Inr (Some (Json_response 200
        (Generated (JStr (lit ''https://cdn.example/1.png'')) (lit ''Doge'') (lit ''D'')
            (lit ''Revolutionary Doge token powered by advanced AI technology.'')
            [lit ''Twitter Account'', lit ''Telegram Group'', lit ''Website'']
            True))),
      [Query_status (lit ''job-1''), Sleep 1, Query_status (lit ''job-1'')])"
proof -
  let ?ps = "script [Poll_response 503 (Inl (External 0)), Poll_response 200 (Inr job_complete)]"
  have h1: "?ps 0 = Poll_response 503 (Inl (External 0))"
    by (simp add: script_def)
  have h2: "(503::int) \<noteq> 200"
    by simp
  have c: "completed (?ps (1 + 0)) = Some job_complete"
    by (simp add: script_def job_status_complete)
  have t: "py_title cpython (lit ''Doge'') = lit ''Doge''"
    by (simp add: py_title_def lower_ucs4_def cpython_def lit_def ascii_upper_def ascii_lower_def
      ascii_letter_def)
  have a: "acronym cpython (lit ''Doge'') = lit ''D''"
    by (simp add: acronym_def py_upper_def py_split.simps cpython_def lit_def ascii_upper_def
      ascii_space_def)
  have d: "lit ''Revolutionary '' @ lit ''Doge'' @ lit '' token powered by advanced AI technology.''
      = lit ''Revolutionary Doge token powered by advanced AI technology.''"
    by (simp add: lit_def)
  have next_attempt: "poll_loop cpython ?ps (JStr (lit ''Doge'')) (lit ''job-1'') 29 (Suc 0) =
     (Inr (Some (Json_response 200
        (Generated (JStr (lit ''https://cdn.example/1.png'')) (lit ''Doge'') (lit ''D'')
            (lit ''Revolutionary Doge token powered by advanced AI technology.'')
            [lit ''Twitter Account'', lit ''Telegram Group'', lit ''Website'']
            True))),
      [Query_status (lit ''job-1'')])"
    using poll_loop_completed [of 0 29 ?ps 1 job_complete cpython "JStr (lit ''Doge'')" "lit ''job-1''"] c
    by (simp add: first_image_url_complete assemble_str t a d)
  note step =
    non_200_poll_skipped [of ?ps 0 503 "Inl (External 0)" cpython "JStr (lit ''Doge'')"
      "lit ''job-1''" 29 30 0, OF h1 h2]
  from step [THEN conjunct1] show ?thesis
    by (simp add: next_attempt)
qed

text \<open>
  C5. The ticker of a success response is the acronym of the idea: the upper-cased first
  code points of up to the first three white-space separated words, joined. The
  expression of the source never raises. \<^verbatim>\<open>Happy Moon Dog\<close> gives \<^verbatim>\<open>HMD\<close>,
  \<^verbatim>\<open>Doge\<close> gives \<^verbatim>\<open>D\<close>, and with four words or more only the first three
  contribute.
\<close>

theorem ticker_is_acronym:
  "(generate R up req = (Json_response st (Generated u n t d l sc), tr) \<longrightarrow>
      (\<exists>kvs idea. req = Inr (JObj kvs) \<and> request_idea kvs = JStr idea \<and> t = acronym R idea))
   \<and> derive_ticker R idea' = Inr (acronym R idea')
   \<and> acronym cpython (lit ''Happy Moon Dog'') = lit ''HMD''
   \<and> acronym cpython (lit ''Doge'') = lit ''D''
   \<and> (4 \<le> length (py_split R idea') \<longrightarrow>
        acronym R idea' =
          py_upper R (take 1 (py_split R idea' ! 0))
          @ py_upper R (take 1 (py_split R idea' ! 1))
          @ py_upper R (take 1 (py_split R idea' ! 2)))"
proof -
  have a: "generate R up req = (Json_response st (Generated u n t d l sc), tr) \<longrightarrow>
      (\<exists>kvs idea. req = Inr (JObj kvs) \<and> request_idea kvs = JStr idea \<and> t = acronym R idea)"
    using generate_success by blast
  have b: "acronym cpython (lit ''Doge'') = lit ''D''"
    by (simp add: acronym_def py_upper_def py_split.simps cpython_def lit_def ascii_upper_def
      ascii_space_def)
  have c: "acronym R idea' =
          py_upper R (take 1 (py_split R idea' ! 0))
          @ py_upper R (take 1 (py_split R idea' ! 1))
          @ py_upper R (take 1 (py_split R idea' ! 2))"
    if "4 \<le> length (py_split R idea')"
  proof -
    from that obtain w0 w1 w2 w3 ws where "py_split R idea' = w0 # w1 # w2 # w3 # ws"
      by (auto simp: Suc_le_length_iff eval_nat_numeral)
    then show ?thesis
      by (simp add: acronym_def numeral_3_eq_3)
  qed
  from a b c show ?thesis
    by (simp add: derive_ticker_acronym acronym_example)
qed

theorem ticker_is_acronym_witness:
  "4 \<le> length (py_split cpython (lit ''Happy Moon Dog Coin''))
   \<and> generate cpython (mock_upstream [Poll_response 200 (Inr job_complete)])
           (Inr (JObj [(lit ''idea'', JStr (lit ''Happy Moon Dog Coin''))])) =
         (Json_response 200
            (Generated (JStr (lit ''https://cdn.example/1.png'')) (lit ''Happy Moon Dog Coin'')
               (lit ''HMD'')
               (lit ''Revolutionary Happy Moon Dog Coin token powered by advanced AI technology.'')
               [lit ''Twitter Account'', lit ''Telegram Group'', lit ''Website'']
               True),
          [Create_job (base_prompt cpython (JStr (lit ''Happy Moon Dog Coin'')) default_style_prompt),
           Query_status (lit ''job-1'')])"
proof -
  let ?idea = "lit ''Happy Moon Dog Coin''"
  have sp: "py_split cpython ?idea = [lit ''Happy'', lit ''Moon'', lit ''Dog'', lit ''Coin'']"
    by (simp add: py_split.simps cpython_def lit_def ascii_space_def)
  have len: "4 \<le> length (py_split cpython ?idea)"
    by (simp add: sp)
  have "acronym cpython ?idea =
          py_upper cpython (take 1 (py_split cpython ?idea ! 0))
          @ py_upper cpython (take 1 (py_split cpython ?idea ! 1))
          @ py_upper cpython (take 1 (py_split cpython ?idea ! 2))"
    using len ticker_is_acronym [of cpython _ _ _ _ _ _ _ _ _ _ ?idea] by blast
  then have a: "acronym cpython ?idea = lit ''HMD''"
    unfolding sp by (simp add: py_upper_def cpython_def lit_def ascii_upper_def)
  have t: "py_title cpython ?idea = ?idea"
    by (simp add: py_title_def lower_ucs4_def cpython_def lit_def ascii_upper_def ascii_lower_def
      ascii_letter_def)
  have d: "lit ''Revolutionary '' @ ?idea @ lit '' token powered by advanced AI technology.''
      = lit ''Revolutionary Happy Moon Dog Coin token powered by advanced AI technology.''"
    by (simp add: lit_def)
  have ne: "?idea \<noteq> []"
    by (simp add: lit_def)
  have lines: "list_all (\<lambda>c. c < 0xD800) ?idea"
    by (simp add: lit_def)
  from mock_run [OF ne mock_lines_cpython [OF lines]] len show ?thesis
    by (simp add: a t d)
qed

text \<open>
  C6, as the code has it. A request body that is a JSON object without the field
  \<^verbatim>\<open>idea\<close>, and whose two log lines (the received data, the idea with the style) the
  console takes, is answered with HTTP 400 and the body
  \<^verbatim>\<open>{"error": "No idea provided"}\<close>, whatever else the object holds and whatever the
  upstream service would do; nothing is sent upstream.
\<close>

theorem missing_idea_rejected:
  assumes "map_of kvs (lit ''idea'') = None"
    and "logged R [received_line R (JObj kvs), processing_line R JNull (request_style kvs)]"
  shows "generate R up (Inr (JObj kvs)) =
           (Json_response 400 (Error_body (lit ''No idea provided'')), [])"
  using assms by (simp add: generate_object request_idea_def logged_simps)

theorem missing_idea_rejected_witness:
  "map_of [(lit ''artStyle'', JStr (lit ''anime''))] (lit ''idea'') = None
   \<and> generate cpython (mock_upstream []) (Inr (JObj [(lit ''artStyle'', JStr (lit ''anime''))])) =
       (Json_response 400 (Error_body (lit ''No idea provided'')), [])"
proof -
  let ?kvs = "[(lit ''artStyle'', JStr (lit ''anime''))]"
  have h: "map_of ?kvs (lit ''idea'') = None"
    by (simp add: lit_def)
  have style: "request_style ?kvs = JStr (lit ''anime'')"
    by (simp add: request_style_def)
  have l: "logged cpython [received_line cpython (JObj ?kvs),
                           processing_line cpython JNull (request_style ?kvs)]"
    unfolding style
    by (simp add: logged_simps cpython_print received_line_def processing_line_def fmt_def)
      (simp add: cpython_def lit_def)
  show ?thesis
    using h missing_idea_rejected [OF h l, of "mock_upstream []"] by simp
qed

text \<open>
  C6 as stated fails for a body that is no JSON object, and for a JSON object with a log
  line that the console does not take. The body \<^verbatim>\<open>[]\<close> has no \<^verbatim>\<open>get\<close>: the handler
  raises AttributeError and the outer \<^verbatim>\<open>except\<close> answers 500. The object whose only
  field is an \<^verbatim>\<open>artStyle\<close> of the lone surrogate U+D800 has no idea, but the print of
  the idea and the style, which comes before the check, raises UnicodeEncodeError on a
  UTF-8 console: 500 as well.
\<close>

theorem missing_idea_counterexample:
  "generate cpython (mock_upstream []) (Inr (JArr [])) =
     (Json_response 500 (Error_body (exn_str cpython AttributeError)), [])
   \<and> generate cpython (mock_upstream []) (Inr (JObj [(lit ''artStyle'', JStr [0xD800])])) =
     (Json_response 500 (Error_body (exn_str cpython UnicodeEncodeError)), [])"
proof -
  have p1: "py_print cpython (received_line cpython (JArr [])) = None"
    by (simp add: cpython_print received_line_def fmt_def) (simp add: cpython_def lit_def)
  have p2: "py_print cpython (detailed_error_line cpython e) = None" for e
    by (cases e; simp add: cpython_print detailed_error_line_def; simp add: cpython_def lit_def)
  have a: "generate cpython (mock_upstream []) (Inr (JArr [])) =
     (Json_response 500 (Error_body (exn_str cpython AttributeError)), [])"
    by (simp add: generate_not_object p1 outer_except_def p2)
  let ?kvs = "[(lit ''artStyle'', JStr [0xD800])]"
  have idea: "request_idea ?kvs = JNull"
    by (simp add: request_idea_def lit_def)
  have style: "request_style ?kvs = JStr [0xD800]"
    by (simp add: request_style_def)
  have p3: "py_print cpython (received_line cpython (JObj ?kvs)) = None"
    by (simp add: cpython_print received_line_def fmt_def) (simp add: cpython_def lit_def)
  have p4: "py_print cpython (processing_line cpython JNull (JStr [0xD800])) =
      Some UnicodeEncodeError"
    by (simp add: py_print_def cpython_def processing_line_def fmt_def)
  have b: "generate cpython (mock_upstream []) (Inr (JObj ?kvs)) =
     (Json_response 500 (Error_body (exn_str cpython UnicodeEncodeError)), [])"
    by (simp add: generate_object idea style p3 p4 outer_except_def p2)
  from a b show ?thesis
    by (rule conjI)
qed

text \<open>
  C7, as the code has it. For a JSON object with a true idea whose \<^verbatim>\<open>artStyle\<close> is
  absent or hashable (null, a boolean, a number or a string), and whose three log lines
  before the job-creation call the console takes, a job-creation request is sent, and
  its prompt contains the fragment of the table when \<^verbatim>\<open>artStyle\<close> is one of its keys,
  and the default fragment (the one of \<^verbatim>\<open>pixel\<close>) when it is no key of the table or
  absent.
\<close>

theorem style_fragment_in_prompt:
  assumes "logged R [received_line R (JObj kvs),
                     processing_line R (request_idea kvs) (request_style kvs),
                     making_request_line]"
    and "truthy (request_idea kvs)"
    and "hashable (request_style kvs)"
  shows "\<exists>p. sent_prompt (snd (generate R up (Inr (JObj kvs)))) = Some p
           \<and> (\<forall>k fragment. request_style kvs = JStr k \<and> map_of ART_STYLE_PROMPTS k = Some fragment
                 \<longrightarrow> sublist fragment p)
           \<and> ((\<forall>k. request_style kvs = JStr k \<longrightarrow> map_of ART_STYLE_PROMPTS k = None)
                 \<longrightarrow> sublist default_style_prompt p)
           \<and> (map_of kvs (lit ''artStyle'') = None \<longrightarrow> sublist default_style_prompt p)"
proof -
  from assms(3) have "\<exists>sp. style_lookup (request_style kvs) = Inr sp"
    by (cases "request_style kvs") (simp_all add: style_lookup_def split: option.splits)
  then obtain sp where sp: "style_lookup (request_style kvs) = Inr sp"
    by blast
  let ?p = "base_prompt R (request_idea kvs) sp"
  have l1: "logged R [received_line R (JObj kvs),
                      processing_line R (request_idea kvs) (request_style kvs)]"
    and l2: "py_print R making_request_line = None"
    using assms(1) by (simp_all add: logged_simps)
  have "snd (generate R up (Inr (JObj kvs))) = snd (submit R up (request_idea kvs) ?p)"
    using generate_validated [OF l1 assms(2) sp, of up]
    by (simp split: prod.splits sum.splits)
  then have sent: "sent_prompt (snd (generate R up (Inr (JObj kvs)))) = Some ?p"
    by (simp add: submit_sent_prompt [OF l2])
  have frag: "sublist sp ?p"
    by (rule sublist_base_prompt)
  have known: "sublist fragment ?p"
    if "request_style kvs = JStr k" and "map_of ART_STYLE_PROMPTS k = Some fragment" for k fragment
    using that sp frag assms(3) by (simp add: style_lookup_def)
  have unknown: "sublist default_style_prompt ?p"
    if "\<forall>k. request_style kvs = JStr k \<longrightarrow> map_of ART_STYLE_PROMPTS k = None"
    using that sp frag assms(3) by (auto simp: style_lookup_def split: json.splits)
  have absent: "sublist default_style_prompt ?p" if "map_of kvs (lit ''artStyle'') = None"
  proof -
    from that have "request_style kvs = JStr (lit ''pixel'')"
      by (simp add: request_style_def)
    moreover have "map_of ART_STYLE_PROMPTS (lit ''pixel'') = Some default_style_prompt"
      by (simp add: default_style_prompt_def ART_STYLE_PROMPTS_def)
    ultimately show ?thesis
      using known by blast
  qed
  show ?thesis
  proof (intro exI [of _ ?p] conjI allI impI)
    show "sent_prompt (snd (generate R up (Inr (JObj kvs)))) = Some ?p"
      by (rule sent)
  next
    fix k fragment
    assume "request_style kvs = JStr k \<and> map_of ART_STYLE_PROMPTS k = Some fragment"
    then show "sublist fragment ?p"
      using known by blast
  next
    assume "\<forall>k. request_style kvs = JStr k \<longrightarrow> map_of ART_STYLE_PROMPTS k = None"
    then show "sublist default_style_prompt ?p"
      by (rule unknown)
  next
    assume "map_of kvs (lit ''artStyle'') = None"
    then show "sublist default_style_prompt ?p"
      by (rule absent)
  qed
qed

theorem style_fragment_in_prompt_witness:
  "(\<exists>p. sent_prompt (snd (generate cpython (mock_upstream [])
            (Inr (JObj [(lit ''idea'', JStr (lit ''Doge'')),
                        (lit ''artStyle'', JStr (lit ''watercolor''))])))) = Some p
       \<and> sublist default_style_prompt p)
   \<and> (\<exists>p. sent_prompt (snd (generate cpython (mock_upstream [])
            (Inr (JObj [(lit ''idea'', JStr (lit ''Doge'')),
                        (lit ''artStyle'', JStr (lit ''anime''))])))) = Some p
       \<and> sublist (lit ''anime art style, manga-inspired, cel-shaded, vibrant colors,''
                   @ line_break 8
                   @ lit ''kawaii aesthetic, clean linework, anime character design'') p)"
proof -
  have printed: "logged cpython [received_line cpython (JObj kvs),
                     processing_line cpython (JStr (lit ''Doge'')) (JStr style),
                     making_request_line]"
    if "list_all (\<lambda>c. c < 0xD800) style" for kvs style
  proof -
    have "list_all (\<lambda>c. c < 0xD800 \<or> 0xDFFF < c) style"
      using that by (simp add: list_all_iff)
    moreover have "str_of cpython v = []" for v
      by (simp add: cpython_def)
    ultimately show ?thesis
      by (simp add: logged_simps cpython_print received_line_def processing_line_def
          making_request_line_def fmt_def lit_def)
  qed
  let ?kvs' = "[(lit ''idea'', JStr (lit ''Doge'')), (lit ''artStyle'', JStr (lit ''anime''))]"
  have idea': "request_idea ?kvs' = JStr (lit ''Doge'')"
    by (simp add: request_idea_def lit_def)
  have style': "request_style ?kvs' = JStr (lit ''anime'')"
    by (simp add: request_style_def lit_def)
  have l': "logged cpython [received_line cpython (JObj ?kvs'),
                     processing_line cpython (request_idea ?kvs') (request_style ?kvs'),
                     making_request_line]"
    unfolding idea' style' by (rule printed) (simp add: lit_def)
  have h1': "truthy (request_idea ?kvs')"
    by (simp add: idea') (simp add: lit_def)
  have h2': "hashable (request_style ?kvs')"
    by (simp add: style')
  have known: "map_of ART_STYLE_PROMPTS (lit ''anime'') =
      Some (lit ''anime art style, manga-inspired, cel-shaded, vibrant colors,''
            @ line_break 8
            @ lit ''kawaii aesthetic, clean linework, anime character design'')"
    by (simp add: ART_STYLE_PROMPTS_def lit_def)
  from style_fragment_in_prompt [OF l' h1' h2', of "mock_upstream []"] style' known
  have recognized: "\<exists>p. sent_prompt (snd (generate cpython (mock_upstream []) (Inr (JObj ?kvs')))) = Some p
       \<and> sublist (lit ''anime art style, manga-inspired, cel-shaded, vibrant colors,''
                   @ line_break 8
                   @ lit ''kawaii aesthetic, clean linework, anime character design'') p"
    by blast
  let ?kvs = "[(lit ''idea'', JStr (lit ''Doge'')), (lit ''artStyle'', JStr (lit ''watercolor''))]"
  have idea: "request_idea ?kvs = JStr (lit ''Doge'')"
    by (simp add: request_idea_def lit_def)
  have style: "request_style ?kvs = JStr (lit ''watercolor'')"
    by (simp add: request_style_def lit_def)
  have l: "logged cpython [received_line cpython (JObj ?kvs),
                     processing_line cpython (request_idea ?kvs) (request_style ?kvs),
                     making_request_line]"
    unfolding idea style by (rule printed) (simp add: lit_def)
  have h1: "truthy (request_idea ?kvs)"
    by (simp add: idea) (simp add: lit_def)
  have h2: "hashable (request_style ?kvs)"
    by (simp add: style)
  have unknown: "\<forall>k. request_style ?kvs = JStr k \<longrightarrow> map_of ART_STYLE_PROMPTS k = None"
    by (simp add: style) (simp add: ART_STYLE_PROMPTS_def lit_def)
  from style_fragment_in_prompt [OF l h1 h2, of "mock_upstream []"] unknown
  have "\<exists>p. sent_prompt (snd (generate cpython (mock_upstream []) (Inr (JObj ?kvs)))) = Some p
       \<and> sublist default_style_prompt p"
    by blast
  with recognized show ?thesis
    by (rule conjI [rotated])
qed

text \<open>
  C7 as stated fails for an \<^verbatim>\<open>artStyle\<close> that is a JSON array (or object): the lookup
  hashes its key and raises TypeError, the outer \<^verbatim>\<open>except\<close> answers 500, and no
  prompt is sent. It fails as well for an \<^verbatim>\<open>artStyle\<close> that is no key of the table
  and that the console does not take, the lone surrogate U+D800: the print of the idea
  and the style raises UnicodeEncodeError on a UTF-8 console, the answer is 500 and no
  prompt is sent.
\<close>

theorem no_prompt_sent_counterexample:
  "generate cpython (mock_upstream [])
     (Inr (JObj [(lit ''idea'', JStr (lit ''cat'')), (lit ''artStyle'', JArr [])])) =
   (Json_response 500 (Error_body (exn_str cpython TypeError)), [])
   \<and> generate cpython (mock_upstream [])
     (Inr (JObj [(lit ''idea'', JStr (lit ''cat'')), (lit ''artStyle'', JStr [0xD800])])) =
   (Json_response 500 (Error_body (exn_str cpython UnicodeEncodeError)), [])"
proof -
  have ne: "lit ''cat'' \<noteq> []"
    by (simp add: lit_def)
  have p3: "py_print cpython (detailed_error_line cpython e) = None" for e
    by (cases e; simp add: cpython_print detailed_error_line_def; simp add: cpython_def lit_def)
  let ?kvs = "[(lit ''idea'', JStr (lit ''cat'')), (lit ''artStyle'', JArr [])]"
  have idea: "request_idea ?kvs = JStr (lit ''cat'')"
    by (simp add: request_idea_def lit_def)
  have style: "request_style ?kvs = JArr []"
    by (simp add: request_style_def lit_def)
  have p1: "py_print cpython (received_line cpython (JObj ?kvs)) = None"
    by (simp add: cpython_print received_line_def fmt_def) (simp add: cpython_def lit_def)
  have p2: "py_print cpython (processing_line cpython (JStr (lit ''cat'')) (JArr [])) = None"
    by (simp add: cpython_print processing_line_def fmt_def) (simp add: cpython_def lit_def)
  have a: "generate cpython (mock_upstream []) (Inr (JObj ?kvs)) =
      (Json_response 500 (Error_body (exn_str cpython TypeError)), [])"
    unfolding generate_object idea style p1 p2
    using ne by (simp add: p3 style_lookup_def outer_except_def)
  let ?kvs' = "[(lit ''idea'', JStr (lit ''cat'')), (lit ''artStyle'', JStr [0xD800])]"
  have idea': "request_idea ?kvs' = JStr (lit ''cat'')"
    by (simp add: request_idea_def lit_def)
  have style': "request_style ?kvs' = JStr [0xD800]"
    by (simp add: request_style_def lit_def)
  have p1': "py_print cpython (received_line cpython (JObj ?kvs')) = None"
    by (simp add: cpython_print received_line_def fmt_def) (simp add: cpython_def lit_def)
  have p2': "py_print cpython (processing_line cpython (JStr (lit ''cat'')) (JStr [0xD800])) =
      Some UnicodeEncodeError"
    by (simp add: py_print_def cpython_def processing_line_def fmt_def)
  have b: "generate cpython (mock_upstream []) (Inr (JObj ?kvs')) =
      (Json_response 500 (Error_body (exn_str cpython UnicodeEncodeError)), [])"
    unfolding generate_object idea' style' p1' p2'
    by (simp add: p3 outer_except_def)
  from a b show ?thesis
    by (rule conjI)
qed

text \<open>
  C8, as the code has it. For an ASCII idea the ticker of a success response has one
  code point for each of the first three words (all of them when there are fewer), so
  at most 3: the ASCII upper case of the word's first code point. All of them are
  upper-case letters exactly when each of these words starts with a letter.
\<close>

theorem ascii_ticker_shape:
  assumes "ascii_tables R"
    and "generate R up (Inr (JObj kvs)) = (Json_response st (Generated u n t d l sc), tr)"
    and "request_idea kvs = JStr idea"
    and "is_ascii idea"
  shows "length t = min 3 (length (py_split R idea))
         \<and> length t \<le> 3
         \<and> list_all (\<lambda>w. w \<noteq> []) (py_split R idea)
         \<and> t = map (\<lambda>w. ascii_upper (hd w)) (take 3 (py_split R idea))
         \<and> list_all uppercase_letter t
             = list_all (\<lambda>w. ascii_letter (hd w)) (take 3 (py_split R idea))"
proof -
  from generate_success [OF assms(2)] assms(3) have "t = acronym R idea"
    by auto
  with assms(1,4) have t: "t = map (\<lambda>w. ascii_upper (hd w)) (take 3 (py_split R idea))"
    by (simp add: acronym_ascii)
  have words: "list_all (\<lambda>w. w \<noteq> []) (py_split R idea)"
    using py_split_words [of _ R idea] by (auto simp: list_all_iff)
  have "list_all uppercase_letter t
      = list_all (\<lambda>w. ascii_letter (hd w)) (take 3 (py_split R idea))"
    by (simp add: t list_all_iff ascii_case_facts)
  with t words show ?thesis
    by simp
qed

theorem ascii_ticker_shape_witness:
  "is_ascii (lit ''3d Moon Dog Coin'')
   \<and> ticker (body (fst (generate cpython (mock_upstream [Poll_response 200 (Inr job_complete)])
        (Inr (JObj [(lit ''idea'', JStr (lit ''3d Moon Dog Coin''))]))))) = lit ''3MD''
   \<and> length (py_split cpython (lit ''3d Moon Dog Coin'')) = 4"
proof -
  let ?idea = "lit ''3d Moon Dog Coin''"
  let ?kvs = "[(lit ''idea'', JStr ?idea)]"
  have sp: "py_split cpython ?idea = [lit ''3d'', lit ''Moon'', lit ''Dog'', lit ''Coin'']"
    by (simp add: py_split.simps cpython_def lit_def ascii_space_def)
  have asc: "is_ascii ?idea"
    by (simp add: is_ascii_def lit_def)
  have idea: "request_idea ?kvs = JStr ?idea"
    by (simp add: request_idea_def)
  have ne: "?idea \<noteq> []"
    by (simp add: lit_def)
  have lines: "list_all (\<lambda>c. c < 0xD800) ?idea"
    by (simp add: lit_def)
  note run = mock_run [OF ne mock_lines_cpython [OF lines]]
  from ascii_ticker_shape [OF ascii_tables_cpython run idea asc]
  have "acronym cpython ?idea = map (\<lambda>w. ascii_upper (hd w)) (take 3 (py_split cpython ?idea))"
    by simp
  then have "acronym cpython ?idea = lit ''3MD''"
    unfolding sp by (simp add: lit_def ascii_upper_def)
  with asc sp show ?thesis
    by (simp add: run)
qed

text \<open>
  C8 as stated fails for the idea \<^verbatim>\<open>1 2 3\<close>: the success response carries the
  ticker \<^verbatim>\<open>123\<close>, which holds no letter.
\<close>

theorem ticker_not_letters_counterexample:
  "generate cpython (mock_upstream [Poll_response 200 (Inr job_complete)])
     (Inr (JObj [(lit ''idea'', JStr (lit ''1 2 3''))])) =
   (Json_response 200
      (Generated (JStr (lit ''https://cdn.example/1.png'')) (lit ''1 2 3'') (lit ''123'')
         (lit ''Revolutionary 1 2 3 token powered by advanced AI technology.'')
         [lit ''Twitter Account'', lit ''Telegram Group'', lit ''Website'']
         True),
    [Create_job (base_prompt cpython (JStr (lit ''1 2 3'')) default_style_prompt),
     Query_status (lit ''job-1'')])
   \<and> \<not> list_all uppercase_letter (lit ''123'')"
proof -
  let ?idea = "lit ''1 2 3''"
  have a: "acronym cpython ?idea = lit ''123''"
    by (simp add: acronym_def py_upper_def py_split.simps cpython_def lit_def ascii_upper_def
      ascii_space_def)
  have t: "py_title cpython ?idea = ?idea"
    by (simp add: py_title_def lower_ucs4_def cpython_def lit_def ascii_upper_def ascii_lower_def
      ascii_letter_def)
  have d: "lit ''Revolutionary '' @ ?idea @ lit '' token powered by advanced AI technology.''
      = lit ''Revolutionary 1 2 3 token powered by advanced AI technology.''"
    by (simp add: lit_def)
  have n: "\<not> list_all uppercase_letter (lit ''123'')"
    by (simp add: lit_def uppercase_letter_def)
  have ne: "?idea \<noteq> []"
    by (simp add: lit_def)
  have lines: "list_all (\<lambda>c. c < 0xD800) ?idea"
    by (simp add: lit_def)
  from mock_run [OF ne mock_lines_cpython [OF lines]] n show ?thesis
    by (simp add: a t d)
qed

text \<open>
  C9, as the code has it. For an ASCII idea the name of a success response is the
  title-cased idea, and title-casing it again gives the same string.
\<close>

theorem ascii_name_idempotent:
  assumes "ascii_tables R"
    and "generate R up (Inr (JObj kvs)) = (Json_response st (Generated u n t d l sc), tr)"
    and "request_idea kvs = JStr idea"
    and "is_ascii idea"
  shows "n = py_title R idea \<and> py_title R n = n"
proof -
  from generate_success [OF assms(2)] assms(3) have "n = py_title R idea"
    by auto
  with assms(1,4) show ?thesis
    by (simp add: py_title_ascii_idem)
qed

theorem ascii_name_idempotent_witness:
  "is_ascii (lit ''happy mOOn dog'')
   \<and> name (body (fst (generate cpython (mock_upstream [Poll_response 200 (Inr job_complete)])
        (Inr (JObj [(lit ''idea'', JStr (lit ''happy mOOn dog''))]))))) = lit ''Happy Moon Dog''
   \<and> py_title cpython (lit ''Happy Moon Dog'') = lit ''Happy Moon Dog''"
proof -
  let ?idea = "lit ''happy mOOn dog''"
  let ?kvs = "[(lit ''idea'', JStr ?idea)]"
  have asc: "is_ascii ?idea"
    by (simp add: is_ascii_def lit_def)
  have idea: "request_idea ?kvs = JStr ?idea"
    by (simp add: request_idea_def)
  have ne: "?idea \<noteq> []"
    by (simp add: lit_def)
  have lines: "list_all (\<lambda>c. c < 0xD800) ?idea"
    by (simp add: lit_def)
  note run = mock_run [OF ne mock_lines_cpython [OF lines]]
  have t: "py_title cpython ?idea = lit ''Happy Moon Dog''"
    by (simp add: py_title_def lower_ucs4_def cpython_def lit_def ascii_upper_def ascii_lower_def
      ascii_letter_def)
  from ascii_name_idempotent [OF ascii_tables_cpython run idea asc]
  have "py_title cpython (py_title cpython ?idea) = py_title cpython ?idea"
    by simp
  with asc show ?thesis
    by (simp add: run t)
qed

text \<open>
  C9 as stated fails beyond ASCII. The idea is U+01F0 (j with caron) followed by
  \<^verbatim>\<open>a\<close>: its title case is \<^verbatim>\<open>J\<close>, U+030C, \<^verbatim>\<open>a\<close>; in that string the uncased
  U+030C stands before the \<^verbatim>\<open>a\<close>, so title-casing again gives \<^verbatim>\<open>J\<close>, U+030C,
  \<^verbatim>\<open>A\<close>.
\<close>

theorem title_not_idempotent_counterexample:
  "py_title cpython [0x1F0, 0x61] = [0x4A, 0x30C, 0x61]
   \<and> py_title cpython [0x4A, 0x30C, 0x61] = [0x4A, 0x30C, 0x41]
   \<and> py_title cpython (py_title cpython [0x1F0, 0x61]) \<noteq> py_title cpython [0x1F0, 0x61]"
  by (simp add: py_title_def lower_ucs4_def cpython_def ascii_upper_def ascii_lower_def
      ascii_letter_def)

text \<open>
  C10. An idea that is a non-empty string of white space only passes the validation:
  the response is never the 400 \<^verbatim>\<open>No idea provided\<close>, whatever the upstream service
  does; and every success response for it carries the empty ticker.
\<close>

theorem blank_idea_accepted:
  assumes "request_idea kvs = JStr idea"
    and "idea \<noteq> []"
    and "list_all (is_space R) idea"
  shows "fst (generate R up (Inr (JObj kvs))) \<noteq>
           Json_response 400 (Error_body (lit ''No idea provided''))
         \<and> (\<forall>st u n t d l sc.
               fst (generate R up (Inr (JObj kvs))) = Json_response st (Generated u n t d l sc)
               \<longrightarrow> t = [])"
proof -
  have "truthy (request_idea kvs)"
    using assms(1,2) by simp
  then have a: "fst (generate R up (Inr (JObj kvs))) \<noteq>
           Json_response 400 (Error_body (lit ''No idea provided''))"
    by (rule generate_not_rejection)
  have empty: "acronym R idea = []"
    using assms(3) by (simp add: acronym_def py_split_all_space)
  have b: "t = []"
    if "fst (generate R up (Inr (JObj kvs))) = Json_response st (Generated u n t d l sc)"
    for st u n t d l sc
  proof -
    from that have "generate R up (Inr (JObj kvs)) =
        (Json_response st (Generated u n t d l sc), snd (generate R up (Inr (JObj kvs))))"
      by (metis prod.collapse)
    from generate_success [OF this] assms(1) have "t = acronym R idea"
      by auto
    with empty show ?thesis
      by simp
  qed
  from a b show ?thesis
    by blast
qed

theorem blank_idea_accepted_witness:
  "list_all (is_space cpython) (lit ''   '')
   \<and> generate cpython (mock_upstream [Poll_response 200 (Inr job_complete)])
     (Inr (JObj [(lit ''idea'', JStr (lit ''   ''))])) =
   (Json_response 200
      (Generated (JStr (lit ''https://cdn.example/1.png'')) (lit ''   '') []
         (lit ''Revolutionary     token powered by advanced AI technology.'')
         [lit ''Twitter Account'', lit ''Telegram Group'', lit ''Website'']
         True),
    [Create_job (base_prompt cpython (JStr (lit ''   '')) default_style_prompt),
     Query_status (lit ''job-1'')])"
proof -
  let ?idea = "lit ''   ''"
  let ?kvs = "[(lit ''idea'', JStr ?idea)]"
  have sp: "list_all (is_space cpython) ?idea"
    by (simp add: cpython_def lit_def ascii_space_def)
  have idea: "request_idea ?kvs = JStr ?idea"
    by (simp add: request_idea_def)
  have ne: "?idea \<noteq> []"
    by (simp add: lit_def)
  have lines: "list_all (\<lambda>c. c < 0xD800) ?idea"
    by (simp add: lit_def)
  note run = mock_run [OF ne mock_lines_cpython [OF lines]]
  have t: "py_title cpython ?idea = ?idea"
    by (simp add: py_title_def lower_ucs4_def cpython_def lit_def ascii_upper_def ascii_lower_def
      ascii_letter_def)
  have d: "lit ''Revolutionary '' @ ?idea @ lit '' token powered by advanced AI technology.''
      = lit ''Revolutionary     token powered by advanced AI technology.''"
    by (simp add: lit_def)
  from blank_idea_accepted [OF idea ne sp, of "mock_upstream [Poll_response 200 (Inr job_complete)]"]
    run
  have "acronym cpython ?idea = []"
    by (metis fst_conv)
  with sp show ?thesis
    by (simp add: run t d)
qed

end
